theory Spec2Isabelle
  imports Complex_Main "HOL-Library.Word"
begin

unbundle bit_operations_syntax

section \<open>Data model (backend/server.py, lines 30-78)\<close>

text \<open>
  A \<^verbatim>\<open>datetime\<close> is the number of microseconds since the epoch (UTC), a Python
  \<^verbatim>\<open>float\<close> field is a real number. Every pydantic model is a record; the fields carry
  a prefix because two models share field names (\<^verbatim>\<open>id\<close>, \<^verbatim>\<open>user_id\<close>, \<^verbatim>\<open>created_at\<close>).
\<close>

type_synonym datetime = int

record User =
  u_id :: string
  u_email :: string
  u_name :: string
  u_picture :: string
  u_role :: string
  u_created_at :: datetime

record UserSession =
  s_id :: string
  s_user_id :: string
  s_session_token :: string
  s_expires_at :: datetime
  s_created_at :: datetime

record DoctorProfile =
  p_id :: string
  p_user_id :: string
  p_specialization :: string
  p_experience_years :: int
  p_license_number :: string
  p_bio :: string
  p_consultation_fee :: real
  p_available :: bool
  p_created_at :: datetime

record Appointment =
  a_id :: string
  a_patient_id :: string
  a_doctor_id :: string
  a_scheduled_time :: "datetime option"
  a_status :: string
  a_type :: string
  a_video_room_id :: "string option"
  a_created_at :: datetime

record AppointmentCreate =
  ac_doctor_id :: string
  ac_scheduled_time :: "datetime option"
  ac_type :: string

text \<open>
  The MongoDB database \<^verbatim>\<open>db\<close>: four collections, each the list of its documents in
  insertion order (\<^verbatim>\<open>find_one\<close> answers the first match in that order).
\<close>

record db =
  users :: "User list"
  user_sessions :: "UserSession list"
  doctor_profiles :: "DoctorProfile list"
  appointments :: "Appointment list"

text \<open>
  A request: its cookies, its headers, and its body parsed as a JSON object with string
  values (\<open>None\<close> when \<^verbatim>\<open>request.json()\<close> raises).
\<close>

record Request =
  cookies :: "string \<rightharpoonup> string"
  headers :: "string \<rightharpoonup> string"
  json_body :: "(string \<rightharpoonup> string) option"

text \<open>What a handler raises. Only \<open>HTTPException\<close> carries a status of the handler's choice.\<close>

datatype error =
  HTTPException nat string
| KeyError string
| JSONDecodeError
| RequestError

section \<open>Collection operations of the driver\<close>

definition find_one :: "('a \<Rightarrow> bool) \<Rightarrow> 'a list \<Rightarrow> 'a option" where
  "find_one P xs = find P xs"

text \<open>
  The driver encodes a document as BSON before it stores it, and a BSON datetime counts
  milliseconds: a \<^verbatim>\<open>datetime\<close> field is stored without its microseconds below the
  millisecond. The other fields are stored as they are.
\<close>

definition bson_datetime :: "datetime \<Rightarrow> datetime" where
  "bson_datetime t = (t div 1000) * 1000"

definition bson_User :: "User \<Rightarrow> User" where
  "bson_User u = u\<lparr>u_created_at := bson_datetime (u_created_at u)\<rparr>"

definition bson_UserSession :: "UserSession \<Rightarrow> UserSession" where
  "bson_UserSession s =
     s\<lparr>s_expires_at := bson_datetime (s_expires_at s),
       s_created_at := bson_datetime (s_created_at s)\<rparr>"

definition bson_DoctorProfile :: "DoctorProfile \<Rightarrow> DoctorProfile" where
  "bson_DoctorProfile p = p\<lparr>p_created_at := bson_datetime (p_created_at p)\<rparr>"

definition bson_Appointment :: "Appointment \<Rightarrow> Appointment" where
  "bson_Appointment a =
     a\<lparr>a_scheduled_time := map_option bson_datetime (a_scheduled_time a),
       a_created_at := bson_datetime (a_created_at a)\<rparr>"

text \<open>\<^verbatim>\<open>insert_one\<close> appends the encoded document; \<open>bson\<close> is the encoding of its collection.\<close>

definition insert_one :: "('a \<Rightarrow> 'a) \<Rightarrow> 'a \<Rightarrow> 'a list \<Rightarrow> 'a list" where
  "insert_one bson document xs = xs @ [bson document]"

definition delete_many :: "('a \<Rightarrow> bool) \<Rightarrow> 'a list \<Rightarrow> 'a list" where
  "delete_many P xs = filter (\<lambda>x. \<not> P x) xs"

text \<open>\<^verbatim>\<open>update_one\<close> changes the first matching document only, and nothing when none matches.\<close>

fun update_one :: "('a \<Rightarrow> bool) \<Rightarrow> ('a \<Rightarrow> 'a) \<Rightarrow> 'a list \<Rightarrow> 'a list" where
  "update_one P f [] = []"
| "update_one P f (x # xs) = (if P x then f x # xs else x # update_one P f xs)"

section \<open>Python library functions the handlers call\<close>

text \<open>
  \<^verbatim>\<open>uuid.uuid4()\<close> takes 16 random bytes, read as a 128-bit integer, and sets the variant
  and version bits; \<^verbatim>\<open>str\<close> of it is the 32 hexadecimal digits grouped 8-4-4-4-12.
\<close>

definition uuid4 :: "128 word \<Rightarrow> 128 word" where
  "uuid4 r =
     (((r AND NOT (push_bit 48 0xc000)) OR push_bit 48 0x8000)
        AND NOT (push_bit 64 0xf000)) OR push_bit 76 4"

definition hex_digit :: "nat \<Rightarrow> char" where
  "hex_digit n = ''0123456789abcdef'' ! (n mod 16)"

definition hex32 :: "128 word \<Rightarrow> string" where
  "hex32 w = map (\<lambda>i. hex_digit (unat (drop_bit (4 * (31 - i)) w AND 15))) [0..<32]"

definition uuid_str :: "128 word \<Rightarrow> string" where
  "uuid_str w =
     (let h = hex32 w in
      take 8 h @ ''-'' @ take 4 (drop 8 h) @ ''-'' @ take 4 (drop 12 h) @ ''-''
        @ take 4 (drop 16 h) @ ''-'' @ drop 20 h)"

definition str_uuid4 :: "128 word \<Rightarrow> string" where
  "str_uuid4 r = uuid_str (uuid4 r)"

text \<open>
  The 122 bits of the draw that \<open>uuid4\<close> keeps: all but the two variant bits (62, 63) and
  the four version bits (76 to 79).
\<close>

definition uuid_random_bits :: "128 word \<Rightarrow> 128 word" where
  "uuid_random_bits r = r AND NOT (push_bit 48 0xc000) AND NOT (push_bit 64 0xf000)"

text \<open>\<^verbatim>\<open>timedelta(days=7)\<close>, in microseconds.\<close>

definition seven_days :: int where
  "seven_days = 7 * 24 * 60 * 60 * 1000000"

text \<open>\<^verbatim>\<open>not v\<close> for an optional string: true of \<^verbatim>\<open>None\<close> and of the empty string.\<close>

definition py_not :: "string option \<Rightarrow> bool" where
  "py_not v = (case v of None \<Rightarrow> True | Some s \<Rightarrow> s = [])"

definition startswith :: "string \<Rightarrow> string \<Rightarrow> bool" where
  "startswith s p = (take (length p) s = p)"

text \<open>\<^verbatim>\<open>s.split(' ')\<close>: the pieces between single spaces, empty pieces kept.\<close>

fun split_space :: "string \<Rightarrow> string list" where
  "split_space [] = [[]]"
| "split_space (c # cs) =
     (if c = CHR '' '' then [] # split_space cs
      else (case split_space cs of w # ws \<Rightarrow> (c # w) # ws | [] \<Rightarrow> [[c]]))"

section \<open>Authentication helper (lines 81-115)\<close>

text \<open>
  Lines 83-87 of \<^verbatim>\<open>get_current_user\<close>: the cookie first, then the Authorization header.
  A header that starts with \<^verbatim>\<open>'Bearer '\<close> splits into two pieces at least, so the
  last case of the match below is never taken.
\<close>

definition get_session_token :: "Request \<Rightarrow> string option" where
  "get_session_token request =
     (let session_token = cookies request ''session_token'' in
      if py_not session_token then
        (case headers request ''Authorization'' of
           None \<Rightarrow> session_token
         | Some auth_header \<Rightarrow>
             if auth_header \<noteq> [] \<and> startswith auth_header ''Bearer '' then
               (case split_space auth_header of
                  _ # tok # _ \<Rightarrow> Some tok
                | _ \<Rightarrow> session_token)
             else session_token)
      else session_token)"

definition get_current_user :: "datetime \<Rightarrow> Request \<Rightarrow> db \<Rightarrow> User option" where
  "get_current_user now request d =
     (let session_token = get_session_token request in
      if py_not session_token then None
      else
        (case session_token of
           None \<Rightarrow> None
         | Some tok \<Rightarrow>
            (case find_one (\<lambda>s. s_session_token s = tok \<and> s_expires_at s > now)
                    (user_sessions d) of
               None \<Rightarrow> None
             | Some session \<Rightarrow> find_one (\<lambda>u. u_id u = s_user_id session) (users d))))"

definition require_auth :: "datetime \<Rightarrow> Request \<Rightarrow> db \<Rightarrow> error + User" where
  "require_auth now request d =
     (case get_current_user now request d of
        None \<Rightarrow> Inl (HTTPException 401 ''Authentication required'')
      | Some user \<Rightarrow> Inr user)"

definition require_doctor :: "datetime \<Rightarrow> Request \<Rightarrow> db \<Rightarrow> error + User" where
  "require_doctor now request d =
     (case require_auth now request d of
        Inl e \<Rightarrow> Inl e
      | Inr user \<Rightarrow>
          if u_role user \<noteq> ''doctor'' then Inl (HTTPException 403 ''Doctor access required'')
          else Inr user)"

section \<open>Authentication routes (lines 118-201)\<close>

text \<open>The answer of the identity verifier: its status and its JSON object.\<close>

record AuthResponse =
  status_code :: nat
  json :: "string \<rightharpoonup> string"

text \<open>
  What \<^verbatim>\<open>process_session\<close> reads from outside the request and the database: the
  verifier (the call may raise), the random bytes of the two \<^verbatim>\<open>uuid4\<close> calls and the
  three readings of the clock.
\<close>

record LoginEnv =
  verifier :: "string \<Rightarrow> error + AuthResponse"
  user_uuid :: "128 word"
  user_created_now :: datetime
  issue_now :: datetime
  session_uuid :: "128 word"
  session_created_now :: datetime

record SessionResponse =
  r_user :: User
  r_cookie :: string
  r_max_age :: nat

text \<open>
  Lines 156-182: the session is made for \<open>user\<close> once the user record is settled.
  \<^verbatim>\<open>user_data["session_token"]\<close> is read only here, after a new user was inserted.
\<close>

definition create_session ::
  "LoginEnv \<Rightarrow> (string \<rightharpoonup> string) \<Rightarrow> User \<Rightarrow> db \<Rightarrow> (error + SessionResponse) \<times> db" where
  "create_session env user_data user d =
     (case user_data ''session_token'' of
        None \<Rightarrow> (Inl (KeyError ''session_token''), d)
      | Some session_token \<Rightarrow>
          let expires_at = issue_now env + seven_days;
              d1 = d\<lparr>user_sessions := delete_many (\<lambda>s. s_user_id s = u_id user) (user_sessions d)\<rparr>;
              session = \<lparr>s_id = str_uuid4 (session_uuid env), s_user_id = u_id user,
                         s_session_token = session_token, s_expires_at = expires_at,
                         s_created_at = session_created_now env\<rparr>;
              d2 = d1\<lparr>user_sessions := insert_one bson_UserSession session (user_sessions d1)\<rparr>
          in (Inr \<lparr>r_user = user, r_cookie = session_token, r_max_age = 7 * 24 * 60 * 60\<rparr>, d2))"

text \<open>The session document that lines 164-168 build, named for the statements about it.\<close>

definition new_session :: "LoginEnv \<Rightarrow> User \<Rightarrow> string \<Rightarrow> UserSession" where
  "new_session env user tok =
     \<lparr>s_id = str_uuid4 (session_uuid env), s_user_id = u_id user, s_session_token = tok,
      s_expires_at = issue_now env + seven_days, s_created_at = session_created_now env\<rparr>"

text \<open>The body of the \<^verbatim>\<open>try\<close> block, lines 122-182.\<close>

definition process_session_try ::
  "LoginEnv \<Rightarrow> Request \<Rightarrow> db \<Rightarrow> (error + SessionResponse) \<times> db" where
  "process_session_try env request d =
     (case json_body request of
        None \<Rightarrow> (Inl JSONDecodeError, d)
      | Some body \<Rightarrow>
          let session_id = body ''session_id'' in
          if py_not session_id then (Inl (HTTPException 400 ''Session ID required''), d)
          else
            (case session_id of
               None \<Rightarrow> (Inl (HTTPException 400 ''Session ID required''), d)
             | Some sid \<Rightarrow>
                (case verifier env sid of
                   Inl e \<Rightarrow> (Inl e, d)
                 | Inr auth_response \<Rightarrow>
                     if status_code auth_response \<noteq> 200
                     then (Inl (HTTPException 401 ''Invalid session''), d)
                     else
                       let user_data = json auth_response in
                       (case user_data ''email'' of
                          None \<Rightarrow> (Inl (KeyError ''email''), d)
                        | Some email \<Rightarrow>
                           (case find_one (\<lambda>u. u_email u = email) (users d) of
                              None \<Rightarrow>
                                (case user_data ''name'' of
                                   None \<Rightarrow> (Inl (KeyError ''name''), d)
                                 | Some name \<Rightarrow>
                                    (case user_data ''picture'' of
                                       None \<Rightarrow> (Inl (KeyError ''picture''), d)
                                     | Some picture \<Rightarrow>
                                         let user = \<lparr>u_id = str_uuid4 (user_uuid env),
                                                      u_email = email, u_name = name,
                                                      u_picture = picture, u_role = ''patient'',
                                                      u_created_at = user_created_now env\<rparr>
                                         in create_session env user_data user
                                              (d\<lparr>users := insert_one bson_User user (users d)\<rparr>)))
                            | Some existing_user \<Rightarrow>
                                create_session env user_data existing_user d)))))"

text \<open>
  The handler: \<^verbatim>\<open>except Exception\<close> (lines 184-186) catches whatever the block raised,
  \<open>HTTPException\<close> included, and raises status 500 in its place. The writes done before
  the exception stay.
\<close>

definition process_session ::
  "LoginEnv \<Rightarrow> Request \<Rightarrow> db \<Rightarrow> (error + SessionResponse) \<times> db" where
  "process_session env request d =
     (case process_session_try env request d of
        (Inl e, d') \<Rightarrow> (Inl (HTTPException 500 ''Session processing failed''), d')
      | (Inr r, d') \<Rightarrow> (Inr r, d'))"

text \<open>\<^verbatim>\<open>logout\<close> answers \<^verbatim>\<open>{"success": True}\<close> on every path; the model returns that flag.\<close>

definition logout :: "Request \<Rightarrow> db \<Rightarrow> bool \<times> db" where
  "logout request d =
     (let session_token = cookies request ''session_token'' in
      if py_not session_token then (True, d)
      else
        (case session_token of
           None \<Rightarrow> (True, d)
         | Some tok \<Rightarrow>
             (True, d\<lparr>user_sessions :=
                        delete_many (\<lambda>s. s_session_token s = tok) (user_sessions d)\<rparr>)))"

section \<open>Doctor routes (lines 241-259)\<close>

definition get_doctor_profile :: "datetime \<Rightarrow> Request \<Rightarrow> db \<Rightarrow> error + DoctorProfile" where
  "get_doctor_profile now request d =
     (case require_doctor now request d of
        Inl e \<Rightarrow> Inl e
      | Inr user \<Rightarrow>
         (case find_one (\<lambda>p. p_user_id p = u_id user) (doctor_profiles d) of
            None \<Rightarrow> Inl (HTTPException 404 ''Doctor profile not found'')
          | Some profile \<Rightarrow> Inr profile))"

definition update_availability ::
  "bool \<Rightarrow> datetime \<Rightarrow> Request \<Rightarrow> db \<Rightarrow> (error + bool) \<times> db" where
  "update_availability available now request d =
     (case require_doctor now request d of
        Inl e \<Rightarrow> (Inl e, d)
      | Inr user \<Rightarrow>
          (Inr True,
           d\<lparr>doctor_profiles :=
               update_one (\<lambda>p. p_user_id p = u_id user) (\<lambda>p. p\<lparr>p_available := available\<rparr>)
                 (doctor_profiles d)\<rparr>))"

section \<open>Appointment routes (lines 262-333)\<close>

text \<open>The random bytes and the clock reading \<^verbatim>\<open>create_appointment\<close> draws.\<close>

record BookingEnv =
  room_uuid :: "128 word"
  appointment_uuid :: "128 word"
  appointment_created_now :: datetime

definition create_appointment ::
  "datetime \<Rightarrow> BookingEnv \<Rightarrow> AppointmentCreate \<Rightarrow> Request \<Rightarrow> db \<Rightarrow> (error + Appointment) \<times> db" where
  "create_appointment now env appointment_data request d =
     (case require_auth now request d of
        Inl e \<Rightarrow> (Inl e, d)
      | Inr user \<Rightarrow>
         (case find_one (\<lambda>p. p_id p = ac_doctor_id appointment_data \<and> p_available p)
                 (doctor_profiles d) of
            None \<Rightarrow> (Inl (HTTPException 404 ''Doctor not available''), d)
          | Some doctor \<Rightarrow>
              let appointment =
                    \<lparr>a_id = str_uuid4 (appointment_uuid env),
                     a_patient_id = u_id user,
                     a_doctor_id = ac_doctor_id appointment_data,
                     a_scheduled_time = ac_scheduled_time appointment_data,
                     a_status = ''pending'',
                     a_type = ac_type appointment_data,
                     a_video_room_id = Some (str_uuid4 (room_uuid env)),
                     a_created_at = appointment_created_now env\<rparr>
              in (Inr appointment,
                  d\<lparr>appointments := insert_one bson_Appointment appointment (appointments d)\<rparr>)))"

text \<open>
  An appointment as \<^verbatim>\<open>get_user_appointments\<close> returns it: the stored document and the
  \<^verbatim>\<open>"patient"\<close> or \<^verbatim>\<open>"doctor"\<close> field the loop adds when the lookup succeeds.
\<close>

record PatientInfo =
  pi_name :: string
  pi_picture :: string

record DoctorInfo =
  di_name :: string
  di_picture :: string
  di_specialization :: string

record AppointmentDoc =
  appointment :: Appointment
  patient :: "PatientInfo option"
  doctor :: "DoctorInfo option"

definition add_patient_info :: "db \<Rightarrow> Appointment \<Rightarrow> AppointmentDoc" where
  "add_patient_info d a =
     (case find_one (\<lambda>u. u_id u = a_patient_id a) (users d) of
        None \<Rightarrow> \<lparr>appointment = a, patient = None, doctor = None\<rparr>
      | Some patient_user \<Rightarrow>
          \<lparr>appointment = a,
           patient = Some \<lparr>pi_name = u_name patient_user, pi_picture = u_picture patient_user\<rparr>,
           doctor = None\<rparr>)"

definition add_doctor_info :: "db \<Rightarrow> Appointment \<Rightarrow> AppointmentDoc" where
  "add_doctor_info d a =
     (case find_one (\<lambda>p. p_id p = a_doctor_id a) (doctor_profiles d) of
        None \<Rightarrow> \<lparr>appointment = a, patient = None, doctor = None\<rparr>
      | Some doctor_profile \<Rightarrow>
         (case find_one (\<lambda>u. u_id u = p_user_id doctor_profile) (users d) of
            None \<Rightarrow> \<lparr>appointment = a, patient = None, doctor = None\<rparr>
          | Some doctor_user \<Rightarrow>
              \<lparr>appointment = a, patient = None,
               doctor = Some \<lparr>di_name = u_name doctor_user, di_picture = u_picture doctor_user,
                              di_specialization = p_specialization doctor_profile\<rparr>\<rparr>))"

definition get_user_appointments ::
  "datetime \<Rightarrow> Request \<Rightarrow> db \<Rightarrow> error + AppointmentDoc list" where
  "get_user_appointments now request d =
     (case require_auth now request d of
        Inl e \<Rightarrow> Inl e
      | Inr user \<Rightarrow>
          if u_role user = ''doctor'' then
            Inr (map (add_patient_info d)
                   (filter (\<lambda>a. a_doctor_id a = u_id user) (appointments d)))
          else
            Inr (map (add_doctor_info d)
                   (filter (\<lambda>a. a_patient_id a = u_id user) (appointments d))))"

definition join_appointment :: "string \<Rightarrow> datetime \<Rightarrow> Request \<Rightarrow> db \<Rightarrow> error + Appointment" where
  "join_appointment appointment_id now request d =
     (case require_auth now request d of
        Inl e \<Rightarrow> Inl e
      | Inr user \<Rightarrow>
         (case find_one (\<lambda>a. a_id a = appointment_id) (appointments d) of
            None \<Rightarrow> Inl (HTTPException 404 ''Appointment not found'')
          | Some a \<Rightarrow>
              if a_patient_id a \<noteq> u_id user \<and> a_doctor_id a \<noteq> u_id user
              then Inl (HTTPException 403 ''Access denied'')
              else Inr a))"

section \<open>Sample doctors (lines 352-413)\<close>

record SampleDoctor =
  sd_email :: string
  sd_name :: string
  sd_picture :: string
  sd_specialization :: string
  sd_experience_years :: int
  sd_license_number :: string
  sd_bio :: string
  sd_consultation_fee :: real

definition sample_doctors :: "SampleDoctor list" where
  "sample_doctors =
    [\<lparr>sd_email = ''dr.smith@medconnect.com'',
      sd_name = ''Dr. Sarah Smith'',
      sd_picture = ''https://images.unsplash.com/photo-1559839734-2b71ea197ec2?w=150&h=150&fit=crop&crop=face'',
      sd_specialization = ''General Medicine'',
      sd_experience_years = 8,
      sd_license_number = ''MD12345'',
      sd_bio = ''Experienced family physician specializing in rural healthcare delivery.'',
      sd_consultation_fee = 75\<rparr>,
     \<lparr>sd_email = ''dr.johnson@medconnect.com'',
      sd_name = ''Dr. Michael Johnson'',
      sd_picture = ''https://images.unsplash.com/photo-1612349317150-e413f6a5b16d?w=150&h=150&fit=crop&crop=face'',
      sd_specialization = ''Cardiology'',
      sd_experience_years = 12,
      sd_license_number = ''MD67890'',
      sd_bio = ''Cardiologist with expertise in remote heart monitoring and consultation.'',
      sd_consultation_fee = 120\<rparr>,
     \<lparr>sd_email = ''dr.wilson@medconnect.com'',
      sd_name = ''Dr. Emily Wilson'',
      sd_picture = ''https://images.unsplash.com/photo-1594824804732-ca8db3ac9421?w=150&h=150&fit=crop&crop=face'',
      sd_specialization = ''Pediatrics'',
      sd_experience_years = 6,
      sd_license_number = ''MD11122'',
      sd_bio = ''Pediatrician dedicated to providing quality healthcare for children in underserved areas.'',
      sd_consultation_fee = 90\<rparr>]"

text \<open>
  What the seeding reads from outside the database, for the \<open>i\<close>-th doctor of the list:
  the random bytes of the two identifiers and the two clock readings.
\<close>

record SeedEnv =
  seed_user_uuid :: "nat \<Rightarrow> 128 word"
  seed_user_now :: "nat \<Rightarrow> datetime"
  seed_profile_uuid :: "nat \<Rightarrow> 128 word"
  seed_profile_now :: "nat \<Rightarrow> datetime"

text \<open>One turn of the loop of lines 388-411.\<close>

definition seed_doctor :: "SeedEnv \<Rightarrow> nat \<Rightarrow> SampleDoctor \<Rightarrow> db \<Rightarrow> db" where
  "seed_doctor env i doctor_data d =
     (case find_one (\<lambda>u. u_email u = sd_email doctor_data) (users d) of
        Some existing_user \<Rightarrow> d
      | None \<Rightarrow>
          let user = \<lparr>u_id = str_uuid4 (seed_user_uuid env i),
                       u_email = sd_email doctor_data,
                       u_name = sd_name doctor_data,
                       u_picture = sd_picture doctor_data,
                       u_role = ''doctor'',
                       u_created_at = seed_user_now env i\<rparr>;
              d1 = d\<lparr>users := insert_one bson_User user (users d)\<rparr>;
              profile = \<lparr>p_id = str_uuid4 (seed_profile_uuid env i),
                          p_user_id = u_id user,
                          p_specialization = sd_specialization doctor_data,
                          p_experience_years = sd_experience_years doctor_data,
                          p_license_number = sd_license_number doctor_data,
                          p_bio = sd_bio doctor_data,
                          p_consultation_fee = sd_consultation_fee doctor_data,
                          p_available = True,
                          p_created_at = seed_profile_now env i\<rparr>
          in d1\<lparr>doctor_profiles := insert_one bson_DoctorProfile profile (doctor_profiles d1)\<rparr>)"

fun seed_loop :: "SeedEnv \<Rightarrow> nat \<Rightarrow> SampleDoctor list \<Rightarrow> db \<Rightarrow> db" where
  "seed_loop env i [] d = d"
| "seed_loop env i (doctor_data # rest) d = seed_loop env (Suc i) rest (seed_doctor env i doctor_data d)"

definition init_sample_doctors :: "SeedEnv \<Rightarrow> db \<Rightarrow> (string \<times> bool) \<times> db" where
  "init_sample_doctors env d = ((''Sample doctors initialized'', True), seed_loop env 0 sample_doctors d)"

section \<open>Example states\<close>

text \<open>
  A small database on which the handlers are evaluated: a patient, a doctor with her
  profile, a third user, one session each, and one appointment of the patient with the
  doctor.
\<close>

definition alice :: User where
  "alice = \<lparr>u_id = ''u-alice'', u_email = ''alice@example.com'', u_name = ''Alice'',
             u_picture = ''alice.png'', u_role = ''patient'', u_created_at = 0\<rparr>"

definition dr_bob :: User where
  "dr_bob = \<lparr>u_id = ''u-bob'', u_email = ''bob@example.com'', u_name = ''Dr. Bob'',
              u_picture = ''bob.png'', u_role = ''doctor'', u_created_at = 0\<rparr>"

definition carol :: User where
  "carol = \<lparr>u_id = ''u-carol'', u_email = ''carol@example.com'', u_name = ''Carol'',
             u_picture = ''carol.png'', u_role = ''patient'', u_created_at = 0\<rparr>"

definition bob_profile :: DoctorProfile where
  "bob_profile = \<lparr>p_id = ''p-bob'', p_user_id = ''u-bob'', p_specialization = ''Cardiology'',
                   p_experience_years = 12, p_license_number = ''MD67890'', p_bio = ''Heart'',
                   p_consultation_fee = 120, p_available = True, p_created_at = 0\<rparr>"

definition session_of :: "string \<Rightarrow> string \<Rightarrow> UserSession" where
  "session_of uid tok = \<lparr>s_id = ''s-'' @ tok, s_user_id = uid, s_session_token = tok,
                         s_expires_at = 1000, s_created_at = 0\<rparr>"

definition appt1 :: Appointment where
  "appt1 = \<lparr>a_id = ''a-1'', a_patient_id = ''u-alice'', a_doctor_id = ''p-bob'',
             a_scheduled_time = None, a_status = ''pending'', a_type = ''instant'',
             a_video_room_id = Some ''room-1'', a_created_at = 10\<rparr>"

definition clinic :: db where
  "clinic = \<lparr>users = [alice, dr_bob, carol],
              user_sessions = [session_of ''u-alice'' ''tok-alice'', session_of ''u-bob'' ''tok-bob'',
                               session_of ''u-carol'' ''tok-carol''],
              doctor_profiles = [bob_profile],
              appointments = [appt1]\<rparr>"

definition with_cookie :: "string \<Rightarrow> Request" where
  "with_cookie tok = \<lparr>cookies = [''session_token'' \<mapsto> tok], headers = Map.empty, json_body = None\<rparr>"

definition with_bearer :: "string \<Rightarrow> Request" where
  "with_bearer tok = \<lparr>cookies = Map.empty, headers = [''Authorization'' \<mapsto> ''Bearer '' @ tok],
                       json_body = None\<rparr>"

definition with_body :: "(string \<rightharpoonup> string) \<Rightarrow> Request" where
  "with_body b = \<lparr>cookies = Map.empty, headers = Map.empty, json_body = Some b\<rparr>"

text \<open>The outside readings of one booking.\<close>

definition booking_env :: BookingEnv where
  "booking_env = \<lparr>room_uuid = 0x0123456789abcdef0123456789abcdef, appointment_uuid = 1,
                   appointment_created_now = 500\<rparr>"

text \<open>A request with no credential, and a verifier that refuses every session id.\<close>

definition anonymous :: Request where
  "anonymous = \<lparr>cookies = Map.empty, headers = Map.empty, json_body = None\<rparr>"

definition refusing_env :: LoginEnv where
  "refusing_env = \<lparr>verifier = (\<lambda>sid. Inr \<lparr>status_code = 404, json = Map.empty\<rparr>),
                    user_uuid = 1, user_created_now = 100, issue_now = 100,
                    session_uuid = 2, session_created_now = 100\<rparr>"

text \<open>
  A verifier that knows the patient of the example database and hands out the token
  \<open>tok\<close>, her login request, and what a login of hers answers and leaves behind.
\<close>

definition login_env :: "string \<Rightarrow> LoginEnv" where
  "login_env tok =
     \<lparr>verifier = (\<lambda>sid. Inr \<lparr>status_code = 200,
                              json = [''email'' \<mapsto> ''alice@example.com'', ''name'' \<mapsto> ''Alice'',
                                      ''picture'' \<mapsto> ''alice.png'', ''session_token'' \<mapsto> tok]\<rparr>),
      user_uuid = 1, user_created_now = 100, issue_now = 100,
      session_uuid = 2, session_created_now = 100\<rparr>"

definition login_request :: Request where
  "login_request = with_body [''session_id'' \<mapsto> ''sid-alice'']"

definition login_response :: "string \<Rightarrow> SessionResponse" where
  "login_response tok = \<lparr>r_user = alice, r_cookie = tok, r_max_age = 604800\<rparr>"

definition after_login :: "string \<Rightarrow> db" where
  "after_login tok =
     clinic\<lparr>user_sessions := [session_of ''u-bob'' ''tok-bob'', session_of ''u-carol'' ''tok-carol'',
                               bson_UserSession (new_session (login_env tok) alice tok)]\<rparr>"

text \<open>The appointment that the example booking returns.\<close>

definition booked :: Appointment where
  "booked = \<lparr>a_id = str_uuid4 1, a_patient_id = ''u-alice'', a_doctor_id = ''p-bob'',
              a_scheduled_time = None, a_status = ''pending'', a_type = ''instant'',
              a_video_room_id = Some ''01234567-89ab-4def-8123-456789abcdef'',
              a_created_at = 500\<rparr>"

section \<open>Facts about the library functions\<close>

lemma find_one_None_iff: "find_one P xs = None \<longleftrightarrow> (\<forall>x\<in>set xs. \<not> P x)"
  by (auto simp: find_one_def find_None_iff)

lemma find_one_SomeD: "find_one P xs = Some x \<Longrightarrow> P x \<and> x \<in> set xs"
  by (auto simp: find_one_def find_Some_iff)

lemma find_one_append:
  "find_one P (xs @ ys) = (case find_one P xs of None \<Rightarrow> find_one P ys | Some x \<Rightarrow> Some x)"
  by (induction xs) (simp_all add: find_one_def)

lemma update_one_no_match: "\<forall>x\<in>set xs. \<not> P x \<Longrightarrow> update_one P f xs = xs"
  by (induction xs) auto

lemma split_space_bearer: "split_space (''Bearer '' @ t) = ''Bearer'' # split_space t"
  by (cases "split_space t") simp_all

lemma split_space_no_space: "CHR '' '' \<notin> set t \<Longrightarrow> split_space t = [t]"
  by (induction t) auto

lemma str_uuid4_length: "length (str_uuid4 r) = 36"
  by (simp add: str_uuid4_def uuid_str_def hex32_def Let_def)

lemma str_uuid4_nonempty: "str_uuid4 r \<noteq> []"
  using str_uuid4_length [of r] by auto

lemma str_uuid4_example:
  "str_uuid4 0x0123456789abcdef0123456789abcdef = ''01234567-89ab-4def-8123-456789abcdef''"
  by (simp add: str_uuid4_def uuid_str_def uuid4_def hex32_def hex_digit_def upt_rec)

text \<open>
  The string of a UUID determines the UUID: the 32 digits are its nibbles. So two draws
  give the same identifier exactly when they agree on the 122 bits that \<open>uuid4\<close> keeps.
\<close>

lemma hex_digit_inj: "m < 16 \<Longrightarrow> n < 16 \<Longrightarrow> hex_digit m = hex_digit n \<Longrightarrow> m = n"
proof -
  assume m: "m < 16" and n: "n < 16" and e: "hex_digit m = hex_digit n"
  have d: "distinct ''0123456789abcdef''" by simp
  have "''0123456789abcdef'' ! m = ''0123456789abcdef'' ! n"
    using e m n by (simp add: hex_digit_def)
  moreover have "m < length ''0123456789abcdef''" "n < length ''0123456789abcdef''"
    using m n by simp_all
  ultimately show "m = n"
    using d nth_eq_iff_index_eq by blast
qed

lemma nibble_less: "unat ((w :: 128 word) AND 15) < 16"
proof -
  have "unat (w AND 15) \<le> unat (15 :: 128 word)"
    by (rule word_and_le1 [THEN word_le_nat_alt [THEN iffD1]])
  then show ?thesis by simp
qed

lemma hex32_nibbles:
  assumes "hex32 w1 = hex32 w2" and "j < 32"
  shows "drop_bit (4 * j) w1 AND 15 = drop_bit (4 * j) w2 AND 15"
proof -
  have "31 - j \<in> set [0..<32]" using assms(2) by simp
  with assms(1) have "hex_digit (unat (drop_bit (4 * (31 - (31 - j))) w1 AND 15))
      = hex_digit (unat (drop_bit (4 * (31 - (31 - j))) w2 AND 15))"
    unfolding hex32_def map_eq_conv by blast
  moreover have "31 - (31 - j) = j" using assms(2) by simp
  ultimately have "hex_digit (unat (drop_bit (4 * j) w1 AND 15))
      = hex_digit (unat (drop_bit (4 * j) w2 AND 15))"
    by simp
  then have "unat (drop_bit (4 * j) w1 AND 15) = unat (drop_bit (4 * j) w2 AND 15)"
    by (rule hex_digit_inj [OF nibble_less nibble_less])
  then show ?thesis by (simp only: word_unat_eq_iff)
qed

lemma fifteen_mask: "(15 :: 128 word) = mask 4"
  by (simp add: mask_eq_exp_minus_1)

lemma hex32_inj: "hex32 w1 = hex32 w2 \<Longrightarrow> w1 = w2"
proof (rule bit_word_eqI)
  fix n
  assume h: "hex32 w1 = hex32 w2" and n: "n < LENGTH(128)"
  define j where "j = n div 4"
  define b where "b = n mod 4"
  have j: "j < 32" and b: "b < 4" and nb: "4 * j + b = n"
    using n by (simp_all add: j_def b_def)
  have "bit (drop_bit (4 * j) w1 AND 15) b = bit (drop_bit (4 * j) w2 AND 15) b"
    using hex32_nibbles [OF h j] by simp
  then show "bit w1 n = bit w2 n"
    using b nb by (simp add: fifteen_mask bit_and_iff bit_drop_bit_eq bit_mask_iff)
qed

lemma length_hex32: "length (hex32 w) = 32"
  by (simp add: hex32_def)

lemma uuid_groups:
  fixes a1 a2 :: string
  assumes "a1 @ ''-'' @ x1 = a2 @ ''-'' @ x2" and "length a1 = length a2"
  shows "a1 = a2 \<and> x1 = x2"
  using assms by simp

lemma hex32_groups:
  "hex32 w = take 8 (hex32 w) @ take 4 (drop 8 (hex32 w)) @ take 4 (drop 12 (hex32 w))
      @ take 4 (drop 16 (hex32 w)) @ drop 20 (hex32 w)"
proof -
  have a: "take 4 (drop k h) @ drop (k + 4) h = drop k h" for k and h :: string
    by (metis add.commute append_take_drop_id drop_drop)
  have "take 4 (drop 16 (hex32 w)) @ drop 20 (hex32 w) = drop 16 (hex32 w)"
    using a [of 16 "hex32 w"] by simp
  moreover have "take 4 (drop 12 (hex32 w)) @ drop 16 (hex32 w) = drop 12 (hex32 w)"
    using a [of 12 "hex32 w"] by simp
  moreover have "take 4 (drop 8 (hex32 w)) @ drop 12 (hex32 w) = drop 8 (hex32 w)"
    using a [of 8 "hex32 w"] by simp
  ultimately show ?thesis
    by (simp only: append_take_drop_id)
qed

lemma uuid_str_inj: "uuid_str w1 = uuid_str w2 \<Longrightarrow> w1 = w2"
proof -
  assume e: "uuid_str w1 = uuid_str w2"
  define h1 where "h1 = hex32 w1"
  define h2 where "h2 = hex32 w2"
  have l: "length h1 = 32" "length h2 = 32"
    by (simp_all add: h1_def h2_def length_hex32)
  from e have e1: "take 8 h1 @ ''-'' @ (take 4 (drop 8 h1) @ ''-'' @ (take 4 (drop 12 h1) @ ''-''
        @ (take 4 (drop 16 h1) @ ''-'' @ drop 20 h1)))
      = take 8 h2 @ ''-'' @ (take 4 (drop 8 h2) @ ''-'' @ (take 4 (drop 12 h2) @ ''-''
        @ (take 4 (drop 16 h2) @ ''-'' @ drop 20 h2)))"
    by (simp only: uuid_str_def Let_def h1_def h2_def append_assoc)
  have g1: "take 8 h1 = take 8 h2
      \<and> take 4 (drop 8 h1) @ ''-'' @ (take 4 (drop 12 h1) @ ''-''
          @ (take 4 (drop 16 h1) @ ''-'' @ drop 20 h1))
        = take 4 (drop 8 h2) @ ''-'' @ (take 4 (drop 12 h2) @ ''-''
          @ (take 4 (drop 16 h2) @ ''-'' @ drop 20 h2))"
    by (rule uuid_groups [OF e1]) (simp add: l)
  have g2: "take 4 (drop 8 h1) = take 4 (drop 8 h2)
      \<and> take 4 (drop 12 h1) @ ''-'' @ (take 4 (drop 16 h1) @ ''-'' @ drop 20 h1)
        = take 4 (drop 12 h2) @ ''-'' @ (take 4 (drop 16 h2) @ ''-'' @ drop 20 h2)"
    by (rule uuid_groups [OF conjunct2 [OF g1]]) (simp add: l)
  have g3: "take 4 (drop 12 h1) = take 4 (drop 12 h2)
      \<and> take 4 (drop 16 h1) @ ''-'' @ drop 20 h1 = take 4 (drop 16 h2) @ ''-'' @ drop 20 h2"
    by (rule uuid_groups [OF conjunct2 [OF g2]]) (simp add: l)
  have g4: "take 4 (drop 16 h1) = take 4 (drop 16 h2) \<and> drop 20 h1 = drop 20 h2"
    by (rule uuid_groups [OF conjunct2 [OF g3]]) (simp add: l)
  have "h1 = take 8 h1 @ take 4 (drop 8 h1) @ take 4 (drop 12 h1)
      @ take 4 (drop 16 h1) @ drop 20 h1"
    unfolding h1_def by (rule hex32_groups)
  also have "\<dots> = take 8 h2 @ take 4 (drop 8 h2) @ take 4 (drop 12 h2)
      @ take 4 (drop 16 h2) @ drop 20 h2"
    by (simp only: g1 g2 g3 g4)
  also have "\<dots> = h2"
    unfolding h2_def by (rule hex32_groups [symmetric])
  finally show "w1 = w2"
    unfolding h1_def h2_def by (rule hex32_inj)
qed

lemma str_uuid4_eq_iff: "str_uuid4 r1 = str_uuid4 r2 \<longleftrightarrow> uuid4 r1 = uuid4 r2"
  by (auto simp: str_uuid4_def dest: uuid_str_inj)

text \<open>The stored datetime is the built one, less than a millisecond earlier at most.\<close>

lemma bson_datetime_bounds: "t - 1000 < bson_datetime t \<and> bson_datetime t \<le> t"
  unfolding bson_datetime_def by presburger

lemma set_bits_keep_rest:
  fixes r a b c d :: "'a::len word"
  assumes "b AND NOT a = 0" and "d AND NOT c = 0"
  shows "((((r AND NOT a) OR b) AND NOT c) OR d) AND NOT a AND NOT c = r AND NOT a AND NOT c"
proof (rule bit_word_eqI)
  fix n
  assume n: "n < LENGTH('a)"
  from assms(1) have "bit (b AND NOT a) n = bit (0 :: 'a word) n" by simp
  then have ba: "bit b n \<longrightarrow> bit a n"
    using n by (simp add: bit_and_iff bit_not_iff)
  from assms(2) have "bit (d AND NOT c) n = bit (0 :: 'a word) n" by simp
  then have dc: "bit d n \<longrightarrow> bit c n"
    using n by (simp add: bit_and_iff bit_not_iff)
  show "bit (((((r AND NOT a) OR b) AND NOT c) OR d) AND NOT a AND NOT c) n
      = bit (r AND NOT a AND NOT c) n"
    using ba dc n by (auto simp: bit_and_iff bit_or_iff bit_not_iff)
qed

lemma set_bits_ignore:
  fixes r a b c d :: "'a::len word"
  shows "((((r AND NOT a AND NOT c) AND NOT a) OR b) AND NOT c) OR d
      = (((r AND NOT a) OR b) AND NOT c) OR d"
  by (rule bit_word_eqI) (auto simp: bit_and_iff bit_or_iff bit_not_iff)

lemma uuid4_random_bits: "uuid_random_bits (uuid4 r) = uuid_random_bits r"
  unfolding uuid4_def uuid_random_bits_def
  by (rule set_bits_keep_rest) simp_all

lemma uuid4_of_random_bits: "uuid4 (uuid_random_bits r) = uuid4 r"
  unfolding uuid4_def uuid_random_bits_def
  by (rule set_bits_ignore)

lemma uuid4_eq_iff: "uuid4 r1 = uuid4 r2 \<longleftrightarrow> uuid_random_bits r1 = uuid_random_bits r2"
proof
  assume "uuid4 r1 = uuid4 r2"
  then have "uuid_random_bits (uuid4 r1) = uuid_random_bits (uuid4 r2)" by simp
  then show "uuid_random_bits r1 = uuid_random_bits r2"
    by (simp only: uuid4_random_bits)
next
  assume "uuid_random_bits r1 = uuid_random_bits r2"
  then have "uuid4 (uuid_random_bits r1) = uuid4 (uuid_random_bits r2)" by simp
  then show "uuid4 r1 = uuid4 r2"
    by (simp only: uuid4_of_random_bits)
qed

lemma str_uuid4_eq_bits:
  "str_uuid4 r1 = str_uuid4 r2 \<longleftrightarrow> uuid_random_bits r1 = uuid_random_bits r2"
  by (simp only: str_uuid4_eq_iff uuid4_eq_iff)

lemmas fixture_defs = with_cookie_def with_bearer_def with_body_def clinic_def session_of_def
  alice_def dr_bob_def carol_def appt1_def bob_profile_def anonymous_def booked_def

lemmas gate_defs = require_doctor_def require_auth_def get_current_user_def
  get_session_token_def py_not_def find_one_def

section \<open>The request gate\<close>

lemma get_session_token_cookie:
  "cookies request ''session_token'' = Some c \<Longrightarrow> c \<noteq> [] \<Longrightarrow> get_session_token request = Some c"
  by (simp add: get_session_token_def py_not_def)

lemma get_session_token_bearer:
  assumes "py_not (cookies request ''session_token'')"
    and "headers request ''Authorization'' = Some (''Bearer '' @ t)"
    and "CHR '' '' \<notin> set t"
  shows "get_session_token request = Some t"
proof -
  have "split_space t = [t]"
    using assms(3) by (rule split_space_no_space)
  then have "split_space (''Bearer '' @ t) = [''Bearer'', t]"
    by (simp only: split_space_bearer)
  then show ?thesis
    using assms(1,2) by (simp add: get_session_token_def startswith_def del: split_space.simps)
qed

text \<open>
  Claim C7. A request to a gated endpoint is answered with status 401 when it carries no
  credential, when no session bears its token, when every session bearing the token
  expires at or before the present instant, and when the session found names a user id
  that no user has. A doctor-only endpoint passes the 401 on, and answers 403 when the
  gate found a user whose role is not doctor. The credential is the \<^verbatim>\<open>session_token\<close>
  cookie when it is present and not empty, and otherwise what follows \<^verbatim>\<open>Bearer\<close> in the
  Authorization header.
\<close>

theorem auth_gate_status:
  "(cookies request ''session_token'' = None \<and> headers request ''Authorization'' = None
      \<longrightarrow> require_auth now request d = Inl (HTTPException 401 ''Authentication required''))
 \<and> (get_session_token request = None
      \<longrightarrow> require_auth now request d = Inl (HTTPException 401 ''Authentication required''))
 \<and> (get_session_token request = Some tok
        \<and> (\<forall>s\<in>set (user_sessions d). s_session_token s = tok \<longrightarrow> s_expires_at s \<le> now)
      \<longrightarrow> require_auth now request d = Inl (HTTPException 401 ''Authentication required''))
 \<and> (get_session_token request = Some tok
        \<and> find_one (\<lambda>s. s_session_token s = tok \<and> s_expires_at s > now) (user_sessions d)
            = Some session
        \<and> (\<forall>u\<in>set (users d). u_id u \<noteq> s_user_id session)
      \<longrightarrow> require_auth now request d = Inl (HTTPException 401 ''Authentication required''))
 \<and> (require_auth now request d = Inl e \<longrightarrow> require_doctor now request d = Inl e)
 \<and> (require_auth now request d = Inr user \<and> u_role user \<noteq> ''doctor''
      \<longrightarrow> require_doctor now request d = Inl (HTTPException 403 ''Doctor access required''))
 \<and> (cookies request ''session_token'' = Some c \<and> c \<noteq> []
      \<longrightarrow> get_session_token request = Some c)
 \<and> (py_not (cookies request ''session_token'')
        \<and> headers request ''Authorization'' = Some (''Bearer '' @ t) \<and> CHR '' '' \<notin> set t
      \<longrightarrow> get_session_token request = Some t)"
proof (intro conjI impI)
  assume "cookies request ''session_token'' = None \<and> headers request ''Authorization'' = None"
  then show "require_auth now request d = Inl (HTTPException 401 ''Authentication required'')"
    by (simp add: require_auth_def get_current_user_def get_session_token_def py_not_def)
next
  assume "get_session_token request = None"
  then show "require_auth now request d = Inl (HTTPException 401 ''Authentication required'')"
    by (simp add: require_auth_def get_current_user_def py_not_def)
next
  assume a: "get_session_token request = Some tok
        \<and> (\<forall>s\<in>set (user_sessions d). s_session_token s = tok \<longrightarrow> s_expires_at s \<le> now)"
  then have "find_one (\<lambda>s. s_session_token s = tok \<and> s_expires_at s > now) (user_sessions d) = None"
    by (auto simp: find_one_None_iff)
  with a show "require_auth now request d = Inl (HTTPException 401 ''Authentication required'')"
    by (simp add: require_auth_def get_current_user_def py_not_def)
next
  assume a: "get_session_token request = Some tok
        \<and> find_one (\<lambda>s. s_session_token s = tok \<and> s_expires_at s > now) (user_sessions d)
            = Some session
        \<and> (\<forall>u\<in>set (users d). u_id u \<noteq> s_user_id session)"
  then have "find_one (\<lambda>u. u_id u = s_user_id session) (users d) = None"
    by (simp add: find_one_None_iff)
  with a show "require_auth now request d = Inl (HTTPException 401 ''Authentication required'')"
    by (simp add: require_auth_def get_current_user_def py_not_def)
next
  assume "require_auth now request d = Inl e"
  then show "require_doctor now request d = Inl e"
    by (simp add: require_doctor_def)
next
  assume "require_auth now request d = Inr user \<and> u_role user \<noteq> ''doctor''"
  then show "require_doctor now request d = Inl (HTTPException 403 ''Doctor access required'')"
    by (simp add: require_doctor_def)
next
  assume "cookies request ''session_token'' = Some c \<and> c \<noteq> []"
  then show "get_session_token request = Some c"
    by (simp add: get_session_token_cookie)
next
  assume "py_not (cookies request ''session_token'')
        \<and> headers request ''Authorization'' = Some (''Bearer '' @ t) \<and> CHR '' '' \<notin> set t"
  then show "get_session_token request = Some t"
    using get_session_token_bearer [of request t] by blast
qed

theorem auth_gate_status_witness:
  "require_auth 500 anonymous clinic = Inl (HTTPException 401 ''Authentication required'')
   \<and> require_auth 500 (with_cookie ''tok-unknown'') clinic
       = Inl (HTTPException 401 ''Authentication required'')
   \<and> require_auth 1000 (with_cookie ''tok-bob'') clinic
       = Inl (HTTPException 401 ''Authentication required'')
   \<and> require_auth 500 (with_cookie ''tok-bob'') (clinic\<lparr>users := [alice]\<rparr>)
       = Inl (HTTPException 401 ''Authentication required'')
   \<and> require_doctor 500 anonymous clinic = Inl (HTTPException 401 ''Authentication required'')
   \<and> require_auth 500 (with_cookie ''tok-alice'') clinic = Inr alice
   \<and> require_doctor 500 (with_cookie ''tok-alice'') clinic
       = Inl (HTTPException 403 ''Doctor access required'')
   \<and> get_session_token ((with_bearer ''tok-bob'')\<lparr>cookies := [''session_token'' \<mapsto> ''tok-alice'']\<rparr>)
       = Some ''tok-alice''
   \<and> get_session_token (with_bearer ''tok-bob'') = Some ''tok-bob''"
proof -
  have c1: "cookies anonymous ''session_token'' = None \<and> headers anonymous ''Authorization'' = None"
    by (simp add: anonymous_def)
  have c2: "get_session_token (with_cookie ''tok-unknown'') = Some ''tok-unknown''
      \<and> (\<forall>s\<in>set (user_sessions clinic).
            s_session_token s = ''tok-unknown'' \<longrightarrow> s_expires_at s \<le> 500)"
    by (simp add: get_session_token_def py_not_def fixture_defs)
  have c3: "get_session_token (with_cookie ''tok-bob'') = Some ''tok-bob''
      \<and> (\<forall>s\<in>set (user_sessions clinic).
            s_session_token s = ''tok-bob'' \<longrightarrow> s_expires_at s \<le> 1000)"
    by (simp add: get_session_token_def py_not_def fixture_defs)
  have c4: "get_session_token (with_cookie ''tok-bob'') = Some ''tok-bob''
      \<and> find_one (\<lambda>s. s_session_token s = ''tok-bob'' \<and> s_expires_at s > 500)
            (user_sessions (clinic\<lparr>users := [alice]\<rparr>)) = Some (session_of ''u-bob'' ''tok-bob'')
      \<and> (\<forall>u\<in>set (users (clinic\<lparr>users := [alice]\<rparr>)).
            u_id u \<noteq> s_user_id (session_of ''u-bob'' ''tok-bob''))"
    by (simp add: get_session_token_def py_not_def find_one_def fixture_defs)
  have r1: "require_auth 500 anonymous clinic = Inl (HTTPException 401 ''Authentication required'')"
    using auth_gate_status [of anonymous 500 clinic] c1 by blast
  have r2: "require_auth 500 (with_cookie ''tok-unknown'') clinic
       = Inl (HTTPException 401 ''Authentication required'')"
    using auth_gate_status [of "with_cookie ''tok-unknown''" 500 clinic "''tok-unknown''"] c2
    by blast
  have r3: "require_auth 1000 (with_cookie ''tok-bob'') clinic
       = Inl (HTTPException 401 ''Authentication required'')"
    using auth_gate_status [of "with_cookie ''tok-bob''" 1000 clinic "''tok-bob''"] c3 by blast
  have r4: "require_auth 500 (with_cookie ''tok-bob'') (clinic\<lparr>users := [alice]\<rparr>)
       = Inl (HTTPException 401 ''Authentication required'')"
    using auth_gate_status [of "with_cookie ''tok-bob''" 500 "clinic\<lparr>users := [alice]\<rparr>"
        "''tok-bob''" "session_of ''u-bob'' ''tok-bob''"] c4
    by blast
  have r5: "require_doctor 500 anonymous clinic = Inl (HTTPException 401 ''Authentication required'')"
    using auth_gate_status [of anonymous 500 clinic _ _ "HTTPException 401 ''Authentication required''"]
      r1 by blast
  have c6: "require_auth 500 (with_cookie ''tok-alice'') clinic = Inr alice
      \<and> u_role alice \<noteq> ''doctor''"
    by (simp add: gate_defs fixture_defs)
  have r6: "require_doctor 500 (with_cookie ''tok-alice'') clinic
       = Inl (HTTPException 403 ''Doctor access required'')"
    using auth_gate_status [of "with_cookie ''tok-alice''" 500 clinic _ _ _ alice] c6 by blast
  have c7: "cookies ((with_bearer ''tok-bob'')\<lparr>cookies := [''session_token'' \<mapsto> ''tok-alice'']\<rparr>)
        ''session_token'' = Some ''tok-alice'' \<and> ''tok-alice'' \<noteq> []"
    by simp
  have r7: "get_session_token ((with_bearer ''tok-bob'')\<lparr>cookies := [''session_token'' \<mapsto> ''tok-alice'']\<rparr>)
       = Some ''tok-alice''"
    using auth_gate_status [of "(with_bearer ''tok-bob'')\<lparr>cookies := [''session_token'' \<mapsto> ''tok-alice'']\<rparr>"
        _ _ _ _ _ _ "''tok-alice''"] c7
    by blast
  have c8: "py_not (cookies (with_bearer ''tok-bob'') ''session_token'')
      \<and> headers (with_bearer ''tok-bob'') ''Authorization'' = Some (''Bearer '' @ ''tok-bob'')
      \<and> CHR '' '' \<notin> set ''tok-bob''"
    by (simp add: with_bearer_def py_not_def)
  have r8: "get_session_token (with_bearer ''tok-bob'') = Some ''tok-bob''"
    using auth_gate_status [of "with_bearer ''tok-bob''" _ _ _ _ _ _ _ "''tok-bob''"] c8
    by blast
  show ?thesis
    using r1 r2 r3 r4 r5 r6 r7 r8 c6 by simp
qed

section \<open>Logout\<close>

text \<open>
  Claim C9. Logout reads the \<^verbatim>\<open>session_token\<close> cookie only. A request with no such
  cookie, whatever its Authorization header, deletes no session and still succeeds; a
  request with a cookie deletes every session bearing that token and succeeds, also when
  no session bears it. A cookie whose value is the empty string counts as no cookie.
\<close>

theorem logout_cookie_only:
  "(cookies request ''session_token'' = None \<longrightarrow> logout request d = (True, d))
 \<and> (cookies request ''session_token'' = Some tok \<and> tok \<noteq> [] \<longrightarrow>
      logout request d
        = (True, d\<lparr>user_sessions := filter (\<lambda>s. s_session_token s \<noteq> tok) (user_sessions d)\<rparr>))
 \<and> (cookies request ''session_token'' = Some tok
        \<and> (\<forall>s\<in>set (user_sessions d). s_session_token s \<noteq> tok) \<longrightarrow>
      logout request d = (True, d))
 \<and> (cookies request ''session_token'' = Some [] \<longrightarrow> logout request d = (True, d))
 \<and> fst (logout request d)"
proof (intro conjI impI)
  assume "cookies request ''session_token'' = None"
  then show "logout request d = (True, d)"
    by (simp add: logout_def py_not_def)
next
  assume "cookies request ''session_token'' = Some tok \<and> tok \<noteq> []"
  then show "logout request d
        = (True, d\<lparr>user_sessions := filter (\<lambda>s. s_session_token s \<noteq> tok) (user_sessions d)\<rparr>)"
    by (simp add: logout_def py_not_def delete_many_def)
next
  assume a: "cookies request ''session_token'' = Some tok
        \<and> (\<forall>s\<in>set (user_sessions d). s_session_token s \<noteq> tok)"
  then have "filter (\<lambda>s. s_session_token s \<noteq> tok) (user_sessions d) = user_sessions d"
    by (simp add: filter_id_conv)
  with a show "logout request d = (True, d)"
    by (simp add: logout_def py_not_def delete_many_def)
next
  assume "cookies request ''session_token'' = Some []"
  then show "logout request d = (True, d)"
    by (simp add: logout_def py_not_def)
next
  show "fst (logout request d)"
    by (simp add: logout_def Let_def split: option.splits)
qed

text \<open>
  On the example database: the doctor's bearer-only logout leaves the database as it was,
  and her token still authenticates afterwards; her cookie logout removes her session; a
  cookie that matches no session changes nothing.
\<close>

theorem logout_cookie_only_witness:
  "cookies (with_bearer ''tok-bob'') ''session_token'' = None
   \<and> logout (with_bearer ''tok-bob'') clinic = (True, clinic)
   \<and> get_current_user 500 (with_bearer ''tok-bob'') (snd (logout (with_bearer ''tok-bob'') clinic))
       = Some dr_bob
   \<and> cookies (with_cookie ''tok-bob'') ''session_token'' = Some ''tok-bob''
   \<and> logout (with_cookie ''tok-bob'') clinic
       = (True, clinic\<lparr>user_sessions := [session_of ''u-alice'' ''tok-alice'',
                                           session_of ''u-carol'' ''tok-carol'']\<rparr>)
   \<and> cookies (with_cookie ''tok-none'') ''session_token'' = Some ''tok-none''
   \<and> logout (with_cookie ''tok-none'') clinic = (True, clinic)"
proof -
  have h1: "cookies (with_bearer ''tok-bob'') ''session_token'' = None"
    by (simp add: with_bearer_def)
  have h2: "cookies (with_cookie ''tok-bob'') ''session_token'' = Some ''tok-bob''"
    by (simp add: with_cookie_def)
  have h3: "cookies (with_cookie ''tok-none'') ''session_token'' = Some ''tok-none''"
    by (simp add: with_cookie_def)
  have h4: "\<forall>s\<in>set (user_sessions clinic). s_session_token s \<noteq> ''tok-none''"
    by (simp add: clinic_def session_of_def)
  have a: "logout (with_bearer ''tok-bob'') clinic = (True, clinic)"
    using logout_cookie_only [of "with_bearer ''tok-bob''" clinic] h1 by simp
  have b: "logout (with_cookie ''tok-bob'') clinic
       = (True, clinic\<lparr>user_sessions := [session_of ''u-alice'' ''tok-alice'',
                                           session_of ''u-carol'' ''tok-carol'']\<rparr>)"
    using logout_cookie_only [of "with_cookie ''tok-bob''" clinic "''tok-bob''"] h2
    by (simp add: clinic_def session_of_def)
  have c: "logout (with_cookie ''tok-none'') clinic = (True, clinic)"
    using logout_cookie_only [of "with_cookie ''tok-none''" clinic "''tok-none''"] h3 h4 by simp
  have g: "get_current_user 500 (with_bearer ''tok-bob'') clinic = Some dr_bob"
    by (simp add: gate_defs fixture_defs startswith_def)
  show ?thesis
    using h1 h2 h3 a b c g by simp
qed

section \<open>Doctor availability\<close>

text \<open>
  Claim C10. When the caller passes the doctor gate and no DoctorProfile has the
  caller's user id, toggling availability answers success and returns the database
  unchanged, while fetching the own profile fails with status 404.
\<close>

theorem update_availability_without_profile:
  assumes "require_doctor now request d = Inr user"
    and "\<forall>p\<in>set (doctor_profiles d). p_user_id p \<noteq> u_id user"
  shows "update_availability available now request d = (Inr True, d)
       \<and> get_doctor_profile now request d = Inl (HTTPException 404 ''Doctor profile not found'')"
proof -
  have "update_one (\<lambda>p. p_user_id p = u_id user) (\<lambda>p. p\<lparr>p_available := available\<rparr>)
          (doctor_profiles d) = doctor_profiles d"
    using assms(2) by (intro update_one_no_match) simp
  moreover have "find_one (\<lambda>p. p_user_id p = u_id user) (doctor_profiles d) = None"
    using assms(2) by (simp add: find_one_None_iff)
  ultimately show ?thesis
    using assms(1) by (simp add: update_availability_def get_doctor_profile_def)
qed

theorem update_availability_without_profile_witness:
  "require_doctor 500 (with_cookie ''tok-bob'') (clinic\<lparr>doctor_profiles := []\<rparr>) = Inr dr_bob
   \<and> update_availability False 500 (with_cookie ''tok-bob'') (clinic\<lparr>doctor_profiles := []\<rparr>)
       = (Inr True, clinic\<lparr>doctor_profiles := []\<rparr>)
   \<and> get_doctor_profile 500 (with_cookie ''tok-bob'') (clinic\<lparr>doctor_profiles := []\<rparr>)
       = Inl (HTTPException 404 ''Doctor profile not found'')"
proof -
  have h: "require_doctor 500 (with_cookie ''tok-bob'') (clinic\<lparr>doctor_profiles := []\<rparr>) = Inr dr_bob"
    by (simp add: gate_defs fixture_defs)
  show ?thesis
    using h update_availability_without_profile [OF h, of False] by simp
qed

section \<open>Booking\<close>

text \<open>
  Claim C5. When the caller is authenticated and every DoctorProfile with the requested
  id is unavailable (in particular when no profile has that id), booking fails with
  status 404 and the database, the appointments with it, is the one it was.
\<close>

theorem create_appointment_unavailable:
  assumes "require_auth now request d = Inr user"
    and "\<forall>p\<in>set (doctor_profiles d). p_id p = ac_doctor_id appointment_data \<longrightarrow> \<not> p_available p"
  shows "create_appointment now env appointment_data request d
           = (Inl (HTTPException 404 ''Doctor not available''), d)"
proof -
  have "find_one (\<lambda>p. p_id p = ac_doctor_id appointment_data \<and> p_available p)
          (doctor_profiles d) = None"
    using assms(2) by (simp add: find_one_None_iff)
  then show ?thesis
    using assms(1) by (simp add: create_appointment_def)
qed

theorem create_appointment_unavailable_witness:
  "require_auth 500 (with_cookie ''tok-alice'') clinic = Inr alice
   \<and> create_appointment 500 booking_env \<lparr>ac_doctor_id = ''p-nobody'', ac_scheduled_time = None,
        ac_type = ''instant''\<rparr> (with_cookie ''tok-alice'') clinic
       = (Inl (HTTPException 404 ''Doctor not available''), clinic)
   \<and> require_auth 500 (with_cookie ''tok-alice'')
        (clinic\<lparr>doctor_profiles := [bob_profile\<lparr>p_available := False\<rparr>]\<rparr>) = Inr alice
   \<and> create_appointment 500 booking_env \<lparr>ac_doctor_id = ''p-bob'', ac_scheduled_time = None,
        ac_type = ''instant''\<rparr> (with_cookie ''tok-alice'')
        (clinic\<lparr>doctor_profiles := [bob_profile\<lparr>p_available := False\<rparr>]\<rparr>)
       = (Inl (HTTPException 404 ''Doctor not available''),
          clinic\<lparr>doctor_profiles := [bob_profile\<lparr>p_available := False\<rparr>]\<rparr>)"
proof -
  have h1: "require_auth 500 (with_cookie ''tok-alice'') clinic = Inr alice"
    by (simp add: gate_defs fixture_defs)
  have h2: "\<forall>p\<in>set (doctor_profiles clinic).
      p_id p = ac_doctor_id \<lparr>ac_doctor_id = ''p-nobody'', ac_scheduled_time = None,
        ac_type = ''instant''\<rparr> \<longrightarrow> \<not> p_available p"
    by (simp add: fixture_defs)
  have h3: "require_auth 500 (with_cookie ''tok-alice'')
        (clinic\<lparr>doctor_profiles := [bob_profile\<lparr>p_available := False\<rparr>]\<rparr>) = Inr alice"
    by (simp add: gate_defs fixture_defs)
  have h4: "\<forall>p\<in>set (doctor_profiles (clinic\<lparr>doctor_profiles := [bob_profile\<lparr>p_available := False\<rparr>]\<rparr>)).
      p_id p = ac_doctor_id \<lparr>ac_doctor_id = ''p-bob'', ac_scheduled_time = None,
        ac_type = ''instant''\<rparr> \<longrightarrow> \<not> p_available p"
    by simp
  show ?thesis
    using h1 h3 create_appointment_unavailable [OF h1 h2, of booking_env]
      create_appointment_unavailable [OF h3 h4, of booking_env]
    by simp
qed

text \<open>
  Claim C6. When the caller is authenticated and an available DoctorProfile has the
  requested id, booking returns an appointment and appends exactly one row, the BSON
  encoding of that appointment, to the collection. Its status is pending, its patient is
  the caller, its doctor is the requested id. Its video room id is the 36-character
  string of the version-4 UUID made from this booking's own draw of random bytes:
  another draw gives the same id only if it agrees with this one on all 122 random
  bits. The stored row is the returned record in every field but the two datetimes,
  which lose their microseconds below the millisecond.
\<close>

theorem create_appointment_inserts:
  assumes "require_auth now request d = Inr user"
    and "p \<in> set (doctor_profiles d)"
    and "p_id p = ac_doctor_id appointment_data"
    and "p_available p"
  shows "\<exists>a room.
           create_appointment now env appointment_data request d
             = (Inr a, d\<lparr>appointments := appointments d @ [bson_Appointment a]\<rparr>)
         \<and> a_status a = ''pending''
         \<and> a_patient_id a = u_id user
         \<and> a_doctor_id a = ac_doctor_id appointment_data
         \<and> a_scheduled_time a = ac_scheduled_time appointment_data
         \<and> a_type a = ac_type appointment_data
         \<and> a_video_room_id a = Some room
         \<and> room = str_uuid4 (room_uuid env)
         \<and> room \<noteq> []
         \<and> length room = 36
         \<and> (str_uuid4 r' = room) = (uuid_random_bits r' = uuid_random_bits (room_uuid env))
         \<and> bson_Appointment a
             = a\<lparr>a_scheduled_time := map_option bson_datetime (a_scheduled_time a),
                 a_created_at := bson_datetime (a_created_at a)\<rparr>
         \<and> a_created_at a - 1000 < a_created_at (bson_Appointment a)
         \<and> a_created_at (bson_Appointment a) \<le> a_created_at a"
proof -
  have "find_one (\<lambda>p. p_id p = ac_doctor_id appointment_data \<and> p_available p)
          (doctor_profiles d) \<noteq> None"
    using assms(2-4) by (auto simp: find_one_None_iff)
  then obtain doctor where
    "find_one (\<lambda>p. p_id p = ac_doctor_id appointment_data \<and> p_available p)
          (doctor_profiles d) = Some doctor"
    by auto
  then show ?thesis
    using assms(1) bson_datetime_bounds [of "appointment_created_now env"]
    by (simp add: create_appointment_def insert_one_def str_uuid4_nonempty str_uuid4_length
        str_uuid4_eq_bits bson_Appointment_def Let_def)
qed

text \<open>
  On the example database: the booking is made at microsecond 500 and stored with
  \<^verbatim>\<open>created_at\<close> 0; the draw of all zero bits would have given another room id.
\<close>

theorem create_appointment_inserts_witness:
  "require_auth 500 (with_cookie ''tok-alice'') clinic = Inr alice
   \<and> bob_profile \<in> set (doctor_profiles clinic)
   \<and> p_available bob_profile
   \<and> create_appointment 500 booking_env
        \<lparr>ac_doctor_id = ''p-bob'', ac_scheduled_time = None, ac_type = ''instant''\<rparr>
        (with_cookie ''tok-alice'') clinic
       = (Inr booked, clinic\<lparr>appointments := [appt1, booked\<lparr>a_created_at := 0\<rparr>]\<rparr>)
   \<and> a_status booked = ''pending'' \<and> a_patient_id booked = ''u-alice''
   \<and> a_doctor_id booked = ''p-bob''
   \<and> a_video_room_id booked = Some ''01234567-89ab-4def-8123-456789abcdef''
   \<and> str_uuid4 0 \<noteq> ''01234567-89ab-4def-8123-456789abcdef''"
proof -
  have h1: "require_auth 500 (with_cookie ''tok-alice'') clinic = Inr alice"
    by (simp add: gate_defs fixture_defs)
  have h2: "bob_profile \<in> set (doctor_profiles clinic)"
    by (simp add: clinic_def)
  have h3: "p_id bob_profile
      = ac_doctor_id \<lparr>ac_doctor_id = ''p-bob'', ac_scheduled_time = None, ac_type = ''instant''\<rparr>"
    by (simp add: bob_profile_def)
  have h4: "p_available bob_profile"
    by (simp add: bob_profile_def)
  have bits: "uuid_random_bits 0 \<noteq> uuid_random_bits (room_uuid booking_env)"
    by (simp add: uuid_random_bits_def booking_env_def)
  have ev: "create_appointment 500 booking_env
        \<lparr>ac_doctor_id = ''p-bob'', ac_scheduled_time = None, ac_type = ''instant''\<rparr>
        (with_cookie ''tok-alice'') clinic
       = (Inr booked, clinic\<lparr>appointments := [appt1, booked\<lparr>a_created_at := 0\<rparr>]\<rparr>)"
    using h1
    by (simp add: create_appointment_def find_one_def insert_one_def bson_Appointment_def
        bson_datetime_def booking_env_def str_uuid4_example clinic_def bob_profile_def
        booked_def alice_def Let_def)
  from create_appointment_inserts [OF h1 h2 h3 h4, of booking_env 0]
  obtain a room where
    "create_appointment 500 booking_env
        \<lparr>ac_doctor_id = ''p-bob'', ac_scheduled_time = None, ac_type = ''instant''\<rparr>
        (with_cookie ''tok-alice'') clinic
       = (Inr a, clinic\<lparr>appointments := appointments clinic @ [bson_Appointment a]\<rparr>)"
    and f: "a_status a = ''pending''" "a_patient_id a = u_id alice"
      "a_doctor_id a = ''p-bob''" "a_video_room_id a = Some room"
      "room = str_uuid4 (room_uuid booking_env)"
      "(str_uuid4 0 = room) = (uuid_random_bits 0 = uuid_random_bits (room_uuid booking_env))"
    by auto
  with ev have a: "a = booked" by simp
  have "room = ''01234567-89ab-4def-8123-456789abcdef''"
    using f(5) by (simp add: booking_env_def str_uuid4_example)
  then show ?thesis
    using h1 h2 h4 ev f bits unfolding a by (simp add: alice_def)
qed

section \<open>Login errors\<close>

text \<open>
  Claim C1, evaluated on the handler. A login whose body has no session id, and a login
  whose session id the verifier refuses with a status other than 200, both end with
  status 500: the exceptions of status 400 and 401 raised inside the \<^verbatim>\<open>try\<close> block are
  caught by its \<^verbatim>\<open>except Exception\<close>.
\<close>

theorem process_session_masks_status:
  "process_session env (with_body Map.empty) d
     = (Inl (HTTPException 500 ''Session processing failed''), d)
   \<and> process_session refusing_env (with_body [''session_id'' \<mapsto> ''invalid_session_123'']) d
     = (Inl (HTTPException 500 ''Session processing failed''), d)"
  by (simp add: process_session_def process_session_try_def py_not_def with_body_def
      refusing_env_def)

section \<open>Appointments of a doctor\<close>

text \<open>
  Claim C2, evaluated on the handler. The doctor of the example database owns the profile
  that the stored appointment names in \<^verbatim>\<open>doctor_id\<close>, and the listing answers her with no
  appointment: the handler compares \<^verbatim>\<open>doctor_id\<close> with her user id.
\<close>

theorem doctor_listing_misses_own_appointments:
  "require_auth 500 (with_cookie ''tok-bob'') clinic = Inr dr_bob
   \<and> u_role dr_bob = ''doctor''
   \<and> find_one (\<lambda>p. p_user_id p = u_id dr_bob) (doctor_profiles clinic) = Some bob_profile
   \<and> filter (\<lambda>a. a_doctor_id a = p_id bob_profile) (appointments clinic) = [appt1]
   \<and> get_user_appointments 500 (with_cookie ''tok-bob'') clinic = Inr []"
  by (simp add: get_user_appointments_def gate_defs fixture_defs)

text \<open>
  The rest of the listing and of the join check is as the claims say: a caller who is not a
  doctor gets the appointments with the caller as patient; joining an unknown appointment
  fails with 404, the patient of the appointment gets it, and a caller who is neither its
  patient nor named by its \<^verbatim>\<open>doctor_id\<close> is refused with 403.
\<close>

lemma get_user_appointments_patient:
  assumes "require_auth now request d = Inr user" and "u_role user \<noteq> ''doctor''"
  shows "\<exists>docs. get_user_appointments now request d = Inr docs
           \<and> map appointment docs = filter (\<lambda>a. a_patient_id a = u_id user) (appointments d)"
proof -
  have "appointment (add_doctor_info d a) = a" for a
    by (simp add: add_doctor_info_def split: option.splits)
  then have "map appointment (map (add_doctor_info d) xs) = xs" for xs
    by (induction xs) simp_all
  then show ?thesis
    using assms by (simp add: get_user_appointments_def)
qed

lemma join_appointment_cases:
  assumes "require_auth now request d = Inr user"
  shows "join_appointment appointment_id now request d =
          (case find_one (\<lambda>a. a_id a = appointment_id) (appointments d) of
             None \<Rightarrow> Inl (HTTPException 404 ''Appointment not found'')
           | Some a \<Rightarrow>
               if a_patient_id a = u_id user \<or> a_doctor_id a = u_id user then Inr a
               else Inl (HTTPException 403 ''Access denied''))"
  using assms by (simp add: join_appointment_def split: option.splits)

text \<open>
  Claim C3, evaluated on the handler. The same doctor asks to join that appointment and
  is refused with status 403, for the same comparison.
\<close>

theorem join_denies_appointment_doctor:
  "require_auth 500 (with_cookie ''tok-bob'') clinic = Inr dr_bob
   \<and> find_one (\<lambda>a. a_id a = ''a-1'') (appointments clinic) = Some appt1
   \<and> find_one (\<lambda>p. p_id p = a_doctor_id appt1) (doctor_profiles clinic) = Some bob_profile
   \<and> p_user_id bob_profile = u_id dr_bob
   \<and> join_appointment ''a-1'' 500 (with_cookie ''tok-bob'') clinic
       = Inl (HTTPException 403 ''Access denied'')"
  by (simp add: join_appointment_def gate_defs fixture_defs)

section \<open>Seeding the sample doctors\<close>

text \<open>
  The loop never removes a user, it leaves the database alone when the email has a user,
  and after its turn for a doctor the doctor's email has one.
\<close>

lemma seed_doctor_keeps_email:
  "\<exists>u\<in>set (users d). u_email u = e \<Longrightarrow> \<exists>u\<in>set (users (seed_doctor env i x d)). u_email u = e"
  by (auto simp: seed_doctor_def insert_one_def bson_User_def Let_def split: option.splits)

lemma seed_doctor_has_email: "\<exists>u\<in>set (users (seed_doctor env i x d)). u_email u = sd_email x"
  by (auto simp: seed_doctor_def insert_one_def bson_User_def Let_def split: option.splits
      dest: find_one_SomeD)

lemma seed_doctor_known:
  "\<exists>u\<in>set (users d). u_email u = sd_email x \<Longrightarrow> seed_doctor env i x d = d"
  by (auto simp: seed_doctor_def find_one_None_iff split: option.splits)

lemma seed_loop_keeps_email:
  "\<exists>u\<in>set (users d). u_email u = e \<Longrightarrow> \<exists>u\<in>set (users (seed_loop env i xs d)). u_email u = e"
proof (induction xs arbitrary: i d)
  case Nil
  then show ?case by simp
next
  case (Cons x xs)
  from Cons.prems have "\<exists>u\<in>set (users (seed_doctor env i x d)). u_email u = e"
    by (rule seed_doctor_keeps_email)
  then show ?case
    using Cons.IH by simp
qed

lemma seed_loop_has_email:
  "x \<in> set xs \<Longrightarrow> \<exists>u\<in>set (users (seed_loop env i xs d)). u_email u = sd_email x"
proof (induction xs arbitrary: i d)
  case Nil
  then show ?case by simp
next
  case (Cons y ys)
  show ?case
  proof (cases "x = y")
    case True
    have "\<exists>u\<in>set (users (seed_doctor env i y d)). u_email u = sd_email x"
      unfolding True by (rule seed_doctor_has_email)
    then have "\<exists>u\<in>set (users (seed_loop env (Suc i) ys (seed_doctor env i y d))). u_email u = sd_email x"
      by (rule seed_loop_keeps_email)
    then show ?thesis by simp
  next
    case False
    with Cons.prems have "x \<in> set ys" by simp
    then show ?thesis
      using Cons.IH by simp
  qed
qed

lemma seed_loop_known:
  "\<forall>x\<in>set xs. \<exists>u\<in>set (users d). u_email u = sd_email x \<Longrightarrow> seed_loop env i xs d = d"
  by (induction xs arbitrary: i) (simp_all add: seed_doctor_known)

lemma seed_loop_twice: "seed_loop env' j xs (seed_loop env i xs d) = seed_loop env i xs d"
  by (intro seed_loop_known ballI seed_loop_has_email)

lemma seed_doctor_count:
  "length (filter (\<lambda>u. u_email u = e) (users (seed_doctor env i x d)))
     = (if e = sd_email x then max 1 (length (filter (\<lambda>u. u_email u = e) (users d)))
        else length (filter (\<lambda>u. u_email u = e) (users d)))"
proof (cases "find_one (\<lambda>u. u_email u = sd_email x) (users d)")
  case None
  then have "filter (\<lambda>u. u_email u = sd_email x) (users d) = []"
    by (auto simp: find_one_None_iff filter_empty_conv)
  with None show ?thesis
    by (auto simp: seed_doctor_def insert_one_def bson_User_def Let_def)
next
  case (Some u)
  then have "u \<in> set (filter (\<lambda>u. u_email u = sd_email x) (users d))"
    by (auto dest: find_one_SomeD)
  then have "max 1 (length (filter (\<lambda>u. u_email u = sd_email x) (users d)))
      = length (filter (\<lambda>u. u_email u = sd_email x) (users d))"
    by (cases "filter (\<lambda>u. u_email u = sd_email x) (users d)") simp_all
  with Some show ?thesis
    by (simp add: seed_doctor_def)
qed

lemma seed_loop_count:
  "length (filter (\<lambda>u. u_email u = e) (users (seed_loop env i xs d)))
     = (if e \<in> set (map sd_email xs) then max 1 (length (filter (\<lambda>u. u_email u = e) (users d)))
        else length (filter (\<lambda>u. u_email u = e) (users d)))"
  by (induction xs arbitrary: i d) (auto simp: seed_doctor_count)

lemma seed_doctor_balance:
  "length (doctor_profiles (seed_doctor env i x d)) + length (users d)
     = length (doctor_profiles d) + length (users (seed_doctor env i x d))"
  by (simp add: seed_doctor_def insert_one_def Let_def split: option.splits)

lemma seed_loop_balance:
  "length (doctor_profiles (seed_loop env i xs d)) + length (users d)
     = length (doctor_profiles d) + length (users (seed_loop env i xs d))"
proof (induction xs arbitrary: i d)
  case Nil
  then show ?case by simp
next
  case (Cons x xs)
  show ?case
    using Cons.IH [of "Suc i" "seed_doctor env i x d"] seed_doctor_balance [of env i x d]
    by simp
qed

text \<open>
  Claim C8. Seeding is idempotent by email. Run on the database that a first run left,
  with whatever identifiers and clock readings, the second run returns the same answer
  and changes nothing. After a run, the number of users with a given email is what it
  was, except that a sample email with no user has exactly one; and the run adds as many
  profiles as it adds users.
\<close>

theorem init_sample_doctors_idempotent:
  "init_sample_doctors env' (snd (init_sample_doctors env d))
     = ((''Sample doctors initialized'', True), snd (init_sample_doctors env d))
   \<and> length (filter (\<lambda>u. u_email u = e) (users (snd (init_sample_doctors env d))))
     = (if e \<in> set (map sd_email sample_doctors)
        then max 1 (length (filter (\<lambda>u. u_email u = e) (users d)))
        else length (filter (\<lambda>u. u_email u = e) (users d)))
   \<and> length (doctor_profiles (snd (init_sample_doctors env d))) + length (users d)
     = length (doctor_profiles d) + length (users (snd (init_sample_doctors env d)))"
  by (simp only: init_sample_doctors_def snd_conv seed_loop_twice seed_loop_count
      seed_loop_balance simp_thms)

section \<open>Session replacement\<close>

text \<open>
  What a successful login read and wrote: the verifier answered 200 with an email and a
  token, the user is the first one with that email (built and stored when there was
  none), and the sessions are the old ones of other users followed by the encoding of
  the new session.
\<close>

lemma create_session_Inr:
  assumes "create_session env user_data user d = (Inr r, d')"
  shows "\<exists>tok. user_data ''session_token'' = Some tok
           \<and> r = \<lparr>r_user = user, r_cookie = tok, r_max_age = 7 * 24 * 60 * 60\<rparr>
           \<and> d' = d\<lparr>user_sessions :=
                      filter (\<lambda>s. s_user_id s \<noteq> u_id user) (user_sessions d)
                        @ [bson_UserSession (new_session env user tok)]\<rparr>"
  using assms
  by (auto simp: create_session_def delete_many_def insert_one_def new_session_def Let_def
      split: option.splits)

lemma process_session_try_Inr:
  assumes "process_session_try env request d = (Inr r, d')"
  shows "\<exists>body sid resp email tok.
           json_body request = Some body \<and> body ''session_id'' = Some sid
         \<and> verifier env sid = Inr resp \<and> status_code resp = 200
         \<and> json resp ''email'' = Some email \<and> json resp ''session_token'' = Some tok
         \<and> r_cookie r = tok \<and> u_email (r_user r) = email
         \<and> (find_one (\<lambda>u. u_email u = email) (users d) = Some (r_user r) \<and> users d' = users d
              \<or> find_one (\<lambda>u. u_email u = email) (users d) = None
                  \<and> users d' = users d @ [bson_User (r_user r)])
         \<and> user_sessions d'
             = filter (\<lambda>s. s_user_id s \<noteq> u_id (r_user r)) (user_sessions d)
                 @ [bson_UserSession (new_session env (r_user r) tok)]"
proof -
  from assms obtain body where b: "json_body request = Some body"
    by (auto simp: process_session_try_def split: option.splits)
  from assms b obtain sid where s: "body ''session_id'' = Some sid"
    by (auto simp: process_session_try_def Let_def split: option.splits if_splits)
  from assms b s obtain resp where v: "verifier env sid = Inr resp" and c: "status_code resp = 200"
    by (auto simp: process_session_try_def Let_def split: option.splits if_splits sum.splits)
  from assms b s v c obtain email where e: "json resp ''email'' = Some email"
    by (auto simp: process_session_try_def Let_def split: option.splits if_splits)
  have ns: "\<not> py_not (Some sid)"
    using assms b s by (auto simp: process_session_try_def Let_def split: if_splits)
  show ?thesis
  proof (cases "find_one (\<lambda>u. u_email u = email) (users d)")
    case (Some existing_user)
    then have cs: "create_session env (json resp) existing_user d = (Inr r, d')"
      using assms b s v c e ns by (simp add: process_session_try_def Let_def)
    have em: "u_email existing_user = email"
      using find_one_SomeD [OF Some] by simp
    from create_session_Inr [OF cs] obtain tok where
      t: "json resp ''session_token'' = Some tok"
      and r: "r = \<lparr>r_user = existing_user, r_cookie = tok, r_max_age = 7 * 24 * 60 * 60\<rparr>"
      and d': "d' = d\<lparr>user_sessions :=
                      filter (\<lambda>s. s_user_id s \<noteq> u_id existing_user) (user_sessions d)
                        @ [bson_UserSession (new_session env existing_user tok)]\<rparr>"
      by blast
    show ?thesis
      using Some b s v c e em t by (simp add: r d')
  next
    case None
    from assms b s v c e ns None obtain name picture where
      n: "json resp ''name'' = Some name" and p: "json resp ''picture'' = Some picture"
      by (auto simp: process_session_try_def Let_def split: option.splits)
    define user where "user = \<lparr>u_id = str_uuid4 (user_uuid env), u_email = email,
      u_name = name, u_picture = picture, u_role = ''patient'',
      u_created_at = user_created_now env\<rparr>"
    have cs: "create_session env (json resp) user (d\<lparr>users := users d @ [bson_User user]\<rparr>)
        = (Inr r, d')"
      using assms b s v c e ns None n p
      by (simp add: process_session_try_def Let_def insert_one_def user_def)
    have em: "u_email user = email"
      by (simp add: user_def)
    from create_session_Inr [OF cs] obtain tok where
      t: "json resp ''session_token'' = Some tok"
      and r: "r = \<lparr>r_user = user, r_cookie = tok, r_max_age = 7 * 24 * 60 * 60\<rparr>"
      and d': "d' = d\<lparr>users := users d @ [bson_User user], user_sessions :=
                      filter (\<lambda>s. s_user_id s \<noteq> u_id user) (user_sessions d)
                        @ [bson_UserSession (new_session env user tok)]\<rparr>"
      by auto
    show ?thesis
      using None b s v c e em t by (simp add: r d')
  qed
qed

lemma process_session_Inr:
  "process_session env request d = (Inr r, d') \<Longrightarrow> process_session_try env request d = (Inr r, d')"
  by (auto simp: process_session_def split: prod.splits sum.splits)

lemma login_single:
  assumes "process_session env request d = (Inr r, d')"
  shows "filter (\<lambda>s. s_user_id s = u_id (r_user r)) (user_sessions d')
           = [bson_UserSession (new_session env (r_user r) (r_cookie r))]
       \<and> (\<exists>body sid resp. json_body request = Some body \<and> body ''session_id'' = Some sid
             \<and> verifier env sid = Inr resp
             \<and> json resp ''session_token'' = Some (r_cookie r))"
proof -
  from process_session_try_Inr [OF process_session_Inr [OF assms]]
  obtain body sid resp where
    "json_body request = Some body" "body ''session_id'' = Some sid"
    "verifier env sid = Inr resp" "json resp ''session_token'' = Some (r_cookie r)"
    and ss: "user_sessions d'
             = filter (\<lambda>s. s_user_id s \<noteq> u_id (r_user r)) (user_sessions d)
                 @ [bson_UserSession (new_session env (r_user r) (r_cookie r))]"
    by blast
  moreover have "filter (\<lambda>s. s_user_id s = u_id (r_user r)) (user_sessions d')
           = [bson_UserSession (new_session env (r_user r) (r_cookie r))]"
    unfolding ss by (simp add: new_session_def bson_UserSession_def)
  ultimately show ?thesis by blast
qed

text \<open>
  The user a login answers with is afterwards the first user with that email, as built
  or as stored.
\<close>

lemma login_finds_user:
  assumes "process_session env request d = (Inr r, d')"
  shows "find_one (\<lambda>u. u_email u = u_email (r_user r)) (users d') = Some (r_user r)
       \<or> find_one (\<lambda>u. u_email u = u_email (r_user r)) (users d') = Some (bson_User (r_user r))"
proof -
  from process_session_try_Inr [OF process_session_Inr [OF assms]]
  have "find_one (\<lambda>u. u_email u = u_email (r_user r)) (users d) = Some (r_user r)
          \<and> users d' = users d
        \<or> find_one (\<lambda>u. u_email u = u_email (r_user r)) (users d) = None
          \<and> users d' = users d @ [bson_User (r_user r)]"
    by auto
  then show ?thesis
    by (auto simp: find_one_append) (simp add: find_one_def bson_User_def)
qed

lemma login_user_found_before:
  assumes "process_session env request d = (Inr r, d')"
    and "find_one (\<lambda>u. u_email u = u_email (r_user r)) (users d) = Some u"
  shows "r_user r = u"
proof -
  from process_session_try_Inr [OF process_session_Inr [OF assms(1)]]
  have "find_one (\<lambda>u. u_email u = u_email (r_user r)) (users d) = Some (r_user r)
        \<or> find_one (\<lambda>u. u_email u = u_email (r_user r)) (users d) = None"
    by auto
  with assms(2) show ?thesis by auto
qed

lemma login_twice:
  assumes l1: "process_session env1 request1 d = (Inr r1, d1)"
    and l2: "process_session env2 request2 d1 = (Inr r2, d2)"
    and same: "u_email (r_user r2) = u_email (r_user r1)"
  shows "u_id (r_user r2) = u_id (r_user r1)"
    and "user_sessions d2
           = filter (\<lambda>s. s_user_id s \<noteq> u_id (r_user r1)) (user_sessions d)
               @ [bson_UserSession (new_session env2 (r_user r2) (r_cookie r2))]"
proof -
  have "find_one (\<lambda>u. u_email u = u_email (r_user r2)) (users d1) = Some (r_user r1)
      \<or> find_one (\<lambda>u. u_email u = u_email (r_user r2)) (users d1) = Some (bson_User (r_user r1))"
    using login_finds_user [OF l1] same by simp
  then have "r_user r2 = r_user r1 \<or> r_user r2 = bson_User (r_user r1)"
    using login_user_found_before [OF l2] by blast
  then show u: "u_id (r_user r2) = u_id (r_user r1)"
    by (auto simp: bson_User_def)
  from process_session_try_Inr [OF process_session_Inr [OF l1]]
  have s1: "user_sessions d1
             = filter (\<lambda>s. s_user_id s \<noteq> u_id (r_user r1)) (user_sessions d)
                 @ [bson_UserSession (new_session env1 (r_user r1) (r_cookie r1))]"
    by auto
  from process_session_try_Inr [OF process_session_Inr [OF l2]]
  have s2: "user_sessions d2
             = filter (\<lambda>s. s_user_id s \<noteq> u_id (r_user r2)) (user_sessions d1)
                 @ [bson_UserSession (new_session env2 (r_user r2) (r_cookie r2))]"
    by auto
  show "user_sessions d2
           = filter (\<lambda>s. s_user_id s \<noteq> u_id (r_user r1)) (user_sessions d)
               @ [bson_UserSession (new_session env2 (r_user r2) (r_cookie r2))]"
    unfolding s2 s1 u by (simp add: new_session_def bson_UserSession_def)
qed

lemma first_token_rejected:
  assumes ss: "user_sessions d2 = filter (\<lambda>s. s_user_id s \<noteq> uid) (user_sessions d) @ [row]"
    and "s_session_token row \<noteq> t1"
    and "\<forall>s\<in>set (user_sessions d). s_session_token s = t1 \<longrightarrow> s_user_id s = uid"
    and "get_session_token probe = Some t1"
  shows "get_current_user now probe d2 = None"
proof -
  have "find_one (\<lambda>s. s_session_token s = t1 \<and> s_expires_at s > now) (user_sessions d2) = None"
    unfolding ss using assms(2,3) by (auto simp: find_one_None_iff)
  then show ?thesis
    using assms(4) by (simp add: get_current_user_def Let_def)
qed

text \<open>
  Claim C4, as amended. After a successful login exactly one session has the user's id:
  the one just inserted, with the token the verifier returned and, as its expiry, the
  issuance instant plus seven days without the microseconds below the millisecond (less
  than a millisecond before issuance plus seven days, and never after it). After two
  successful logins for the same email the user id is the same and the only session with
  that id is the second login's; the first token, when it is not the second token,
  resolves to no user provided no session of another user bore it before the first
  login.
\<close>

theorem login_replaces_sessions:
  "(process_session env request d = (Inr r, d') \<longrightarrow>
      (\<exists>session. filter (\<lambda>s. s_user_id s = u_id (r_user r)) (user_sessions d') = [session]
          \<and> s_session_token session = r_cookie r
          \<and> s_expires_at session = bson_datetime (issue_now env + seven_days)
          \<and> issue_now env + seven_days - 1000 < s_expires_at session
          \<and> s_expires_at session \<le> issue_now env + seven_days)
      \<and> (\<exists>body sid resp. json_body request = Some body \<and> body ''session_id'' = Some sid
            \<and> verifier env sid = Inr resp
            \<and> json resp ''session_token'' = Some (r_cookie r)))
 \<and> (process_session env1 request1 d = (Inr r1, d1)
      \<and> process_session env2 request2 d1 = (Inr r2, d2)
      \<and> u_email (r_user r2) = u_email (r_user r1) \<longrightarrow>
      u_id (r_user r2) = u_id (r_user r1)
      \<and> (\<exists>session. filter (\<lambda>s. s_user_id s = u_id (r_user r1)) (user_sessions d2) = [session]
            \<and> s_session_token session = r_cookie r2
            \<and> s_expires_at session = bson_datetime (issue_now env2 + seven_days))
      \<and> (r_cookie r1 \<noteq> r_cookie r2
            \<and> (\<forall>s\<in>set (user_sessions d).
                  s_session_token s = r_cookie r1 \<longrightarrow> s_user_id s = u_id (r_user r1))
            \<and> get_session_token probe = Some (r_cookie r1)
          \<longrightarrow> get_current_user now probe d2 = None))"
proof (intro conjI impI)
  assume a: "process_session env request d = (Inr r, d')"
  from login_single [OF a] bson_datetime_bounds [of "issue_now env + seven_days"]
  show "\<exists>session. filter (\<lambda>s. s_user_id s = u_id (r_user r)) (user_sessions d') = [session]
          \<and> s_session_token session = r_cookie r
          \<and> s_expires_at session = bson_datetime (issue_now env + seven_days)
          \<and> issue_now env + seven_days - 1000 < s_expires_at session
          \<and> s_expires_at session \<le> issue_now env + seven_days"
    by (simp add: new_session_def bson_UserSession_def)
  from login_single [OF a]
  show "\<exists>body sid resp. json_body request = Some body \<and> body ''session_id'' = Some sid
            \<and> verifier env sid = Inr resp
            \<and> json resp ''session_token'' = Some (r_cookie r)"
    by simp
next
  assume a: "process_session env1 request1 d = (Inr r1, d1)
      \<and> process_session env2 request2 d1 = (Inr r2, d2)
      \<and> u_email (r_user r2) = u_email (r_user r1)"
  then have l1: "process_session env1 request1 d = (Inr r1, d1)"
    and l2: "process_session env2 request2 d1 = (Inr r2, d2)"
    and same: "u_email (r_user r2) = u_email (r_user r1)"
    by simp_all
  show u: "u_id (r_user r2) = u_id (r_user r1)"
    by (rule login_twice(1) [OF l1 l2 same])
  from login_single [OF l2]
  show "\<exists>session. filter (\<lambda>s. s_user_id s = u_id (r_user r1)) (user_sessions d2) = [session]
            \<and> s_session_token session = r_cookie r2
            \<and> s_expires_at session = bson_datetime (issue_now env2 + seven_days)"
    by (simp add: new_session_def bson_UserSession_def u)
  assume b: "r_cookie r1 \<noteq> r_cookie r2
            \<and> (\<forall>s\<in>set (user_sessions d).
                  s_session_token s = r_cookie r1 \<longrightarrow> s_user_id s = u_id (r_user r1))
            \<and> get_session_token probe = Some (r_cookie r1)"
  have row: "s_session_token (bson_UserSession (new_session env2 (r_user r2) (r_cookie r2)))
      \<noteq> r_cookie r1"
    using b by (auto simp: new_session_def bson_UserSession_def)
  show "get_current_user now probe d2 = None"
    using first_token_rejected [OF login_twice(2) [OF l1 l2 same] row] b by blast
qed

lemmas login_defs = process_session_def process_session_try_def create_session_def
  login_env_def login_request_def login_response_def after_login_def new_session_def
  bson_UserSession_def bson_datetime_def seven_days_def
  delete_many_def insert_one_def py_not_def find_one_def

lemma login_alice_first:
  "process_session (login_env tok) login_request clinic
     = (Inr (login_response tok), after_login tok)"
  by (simp add: login_defs fixture_defs Let_def)

lemma login_alice_again:
  "process_session (login_env tok) login_request (after_login tok')
     = (Inr (login_response tok), after_login tok)"
  by (simp add: login_defs fixture_defs Let_def)

text \<open>
  The claim as stated fails twice. A login issued at microsecond 100 stores an expiry
  that is not the issuance instant plus seven days. And when the patient's first token
  is one that the doctor's session bears, that token still authenticates, as the
  doctor, after the patient's second login with another token.
\<close>

theorem first_login_expiry_and_token_survive:
  "process_session (login_env ''tok-1'') login_request clinic
     = (Inr (login_response ''tok-1''), after_login ''tok-1'')
   \<and> filter (\<lambda>s. s_user_id s = ''u-alice'') (user_sessions (after_login ''tok-1''))
     = [\<lparr>s_id = str_uuid4 2, s_user_id = ''u-alice'', s_session_token = ''tok-1'',
         s_expires_at = 604800000000, s_created_at = 0\<rparr>]
   \<and> issue_now (login_env ''tok-1'') + seven_days = 604800000100
   \<and> process_session (login_env ''tok-bob'') login_request clinic
     = (Inr (login_response ''tok-bob''), after_login ''tok-bob'')
   \<and> process_session (login_env ''tok-2'') login_request (after_login ''tok-bob'')
     = (Inr (login_response ''tok-2''), after_login ''tok-2'')
   \<and> get_current_user 500 (with_cookie ''tok-bob'') (after_login ''tok-2'') = Some dr_bob"
proof -
  have "filter (\<lambda>s. s_user_id s = ''u-alice'') (user_sessions (after_login ''tok-1''))
     = [\<lparr>s_id = str_uuid4 2, s_user_id = ''u-alice'', s_session_token = ''tok-1'',
         s_expires_at = 604800000000, s_created_at = 0\<rparr>]"
    by (simp add: login_defs fixture_defs)
  moreover have "issue_now (login_env ''tok-1'') + seven_days = 604800000100"
    by (simp add: login_env_def seven_days_def)
  moreover have "get_current_user 500 (with_cookie ''tok-bob'') (after_login ''tok-2'') = Some dr_bob"
    by (simp add: gate_defs fixture_defs after_login_def)
  ultimately show ?thesis
    using login_alice_first [of "''tok-1''"] login_alice_first [of "''tok-bob''"]
      login_alice_again [of "''tok-2''" "''tok-bob''"]
    by simp
qed

text \<open>
  On the example database: the patient logs in with one token and then with another.
  Each login leaves her one session, stored with expiry 604800000000 for an issuance at
  microsecond 100; after the second login the first token resolves to no user.
\<close>

theorem login_replaces_sessions_witness:
  "process_session (login_env ''tok-1'') login_request clinic
     = (Inr (login_response ''tok-1''), after_login ''tok-1'')
   \<and> filter (\<lambda>s. s_user_id s = ''u-alice'') (user_sessions (after_login ''tok-1''))
     = [\<lparr>s_id = str_uuid4 2, s_user_id = ''u-alice'', s_session_token = ''tok-1'',
         s_expires_at = 604800000000, s_created_at = 0\<rparr>]
   \<and> get_current_user 500 (with_cookie ''tok-1'') (after_login ''tok-1'') = Some alice
   \<and> process_session (login_env ''tok-2'') login_request (after_login ''tok-1'')
     = (Inr (login_response ''tok-2''), after_login ''tok-2'')
   \<and> filter (\<lambda>s. s_user_id s = ''u-alice'') (user_sessions (after_login ''tok-2''))
     = [\<lparr>s_id = str_uuid4 2, s_user_id = ''u-alice'', s_session_token = ''tok-2'',
         s_expires_at = 604800000000, s_created_at = 0\<rparr>]
   \<and> get_current_user 500 (with_cookie ''tok-2'') (after_login ''tok-2'') = Some alice
   \<and> get_current_user 500 (with_cookie ''tok-1'') (after_login ''tok-2'') = None"
proof -
  have h: "process_session (login_env ''tok-1'') login_request clinic
        = (Inr (login_response ''tok-1''), after_login ''tok-1'')
      \<and> process_session (login_env ''tok-2'') login_request (after_login ''tok-1'')
        = (Inr (login_response ''tok-2''), after_login ''tok-2'')
      \<and> u_email (r_user (login_response ''tok-2'')) = u_email (r_user (login_response ''tok-1''))"
    using login_alice_first [of "''tok-1''"] login_alice_again [of "''tok-2''" "''tok-1''"]
    by (simp add: login_response_def)
  have g: "r_cookie (login_response ''tok-1'') \<noteq> r_cookie (login_response ''tok-2'')
      \<and> (\<forall>s\<in>set (user_sessions clinic).
            s_session_token s = r_cookie (login_response ''tok-1'')
              \<longrightarrow> s_user_id s = u_id (r_user (login_response ''tok-1'')))
      \<and> get_session_token (with_cookie ''tok-1'') = Some (r_cookie (login_response ''tok-1''))"
    by (simp add: login_response_def fixture_defs get_session_token_def py_not_def)
  have none: "get_current_user 500 (with_cookie ''tok-1'') (after_login ''tok-2'') = None"
    using login_replaces_sessions [of _ _ clinic _ _ "login_env ''tok-1''" login_request
        "login_response ''tok-1''" "after_login ''tok-1''" "login_env ''tok-2''" login_request
        "login_response ''tok-2''" "after_login ''tok-2''" "with_cookie ''tok-1''" 500] h g
    by blast
  have rest: "filter (\<lambda>s. s_user_id s = ''u-alice'') (user_sessions (after_login ''tok-1''))
       = [\<lparr>s_id = str_uuid4 2, s_user_id = ''u-alice'', s_session_token = ''tok-1'',
           s_expires_at = 604800000000, s_created_at = 0\<rparr>]
     \<and> get_current_user 500 (with_cookie ''tok-1'') (after_login ''tok-1'') = Some alice
     \<and> filter (\<lambda>s. s_user_id s = ''u-alice'') (user_sessions (after_login ''tok-2''))
       = [\<lparr>s_id = str_uuid4 2, s_user_id = ''u-alice'', s_session_token = ''tok-2'',
           s_expires_at = 604800000000, s_created_at = 0\<rparr>]
     \<and> get_current_user 500 (with_cookie ''tok-2'') (after_login ''tok-2'') = Some alice"
    by (simp add: require_auth_def get_current_user_def get_session_token_def login_defs
        fixture_defs)
  show ?thesis
    using h none rest by simp
qed

end
